theory Spec2Isabelle
  imports Complex_Main "HOL-Library.AList" "HOL-Library.Sublist"
begin

section \<open>identify_unused_ddb_capacity.py: data\<close>

text \<open>
  The script talks to two AWS services through boto3 and works on the dictionaries that
  boto3 returns. The dictionaries are modelled as records, one per response shape. A key
  that the service always sends is a plain field; a key that may be missing
  (\<open>ProvisionedThroughput\<close>, \<open>GlobalSecondaryIndexes\<close>) is an \<open>option\<close>; a whole
  response that is falsy in Python (\<open>None\<close> or \<open>{}\<close>) is \<open>None\<close>.
  Python floats are modelled by \<open>real\<close>, Python ints by \<open>int\<close>.
\<close>

text \<open>Module constants, lines 9-11.\<close>

definition PROVISIONED_READ_CAPACITY_UNITS :: string where
  "PROVISIONED_READ_CAPACITY_UNITS = ''ProvisionedReadCapacityUnits''"

definition CONSUMED_READ_CAPACITY_UNITS :: string where
  "CONSUMED_READ_CAPACITY_UNITS = ''ConsumedReadCapacityUnits''"

definition METRICS_STATISTIC_SUM :: string where
  "METRICS_STATISTIC_SUM = ''Sum''"

text \<open>
  Every \<open>raise Exception(...)\<close> of the script is one constructor, named after its message.
  \<open>TypeError\<close> and \<open>ZeroDivisionError\<close> are the two errors Python itself raises in
  line 137. \<open>ClientError\<close> is whatever a boto3 call raises (for example for a table
  that does not exist).
\<close>

datatype error =
    CannotParseEmptyInput
  | MalformedInput
  | CouldNotRetrieveDescribeTable string string
  | UnsupportedCapacityType
  | CannotFindCapacity string string string
  | TypeError
  | ZeroDivisionError
  | ClientError string

text \<open>The response of \<open>list_tables\<close>.\<close>

record list_tables_response =
  TableNames :: "string list"

text \<open>The response of \<open>describe_table\<close>. A \<open>Table\<close> of \<open>None\<close> is an empty description.\<close>

record provisioned_throughput =
  ReadCapacityUnits :: int
  WriteCapacityUnits :: int

record global_secondary_index =
  IndexName :: string
  IndexProvisionedThroughput :: provisioned_throughput

record table_description =
  ProvisionedThroughput :: "provisioned_throughput option"
  GlobalSecondaryIndexes :: "global_secondary_index list option"

record describe_table_response =
  Table :: "table_description option"

text \<open>
  Python's truth test on an optional string argument (\<open>not indexName\<close>,
  \<open>tableToCheck and ...\<close>): \<open>None\<close> and the empty string are false.
\<close>

definition truthy :: "string option \<Rightarrow> bool" where
  "truthy s = (case s of None \<Rightarrow> False | Some v \<Rightarrow> v \<noteq> [])"

section \<open>parseDDBTableList\<close>

text \<open>
  Lines 13-28. The result is a Python set; it is modelled by the list of its elements
  without repetition, in the order of first insertion.
\<close>

definition parseDDBTableList :: "list_tables_response option \<Rightarrow> error + string list" where
  "parseDDBTableList inputJson =
     (case inputJson of
        None \<Rightarrow> Inl CannotParseEmptyInput
      | Some r \<Rightarrow>
          if TableNames r = [] then Inl MalformedInput
          else Inr (foldl (\<lambda>tableNames tn. List.insert tn tableNames) [] (TableNames r)))"

section \<open>getDDBTableProvisionedCapacity\<close>

text \<open>
  The loop of lines 95-102 over the index descriptions. When no description has the
  requested name the loop ends and the function returns nothing, that is Python's
  \<open>None\<close>: the result \<open>Inr None\<close>.
\<close>

fun getDDBTableProvisionedCapacity_loop ::
  "string \<Rightarrow> string \<Rightarrow> global_secondary_index list \<Rightarrow> error + int option" where
  "getDDBTableProvisionedCapacity_loop capacityType indexName [] = Inr None"
| "getDDBTableProvisionedCapacity_loop capacityType indexName (ind # inds) =
     (if IndexName ind = indexName then
        (if capacityType = ''read'' then
           Inr (Some (ReadCapacityUnits (IndexProvisionedThroughput ind)))
         else if capacityType = ''write'' then
           Inr (Some (WriteCapacityUnits (IndexProvisionedThroughput ind)))
         else Inl UnsupportedCapacityType)
      else getDDBTableProvisionedCapacity_loop capacityType indexName inds)"

text \<open>Lines 81-102: what the function does with the response of \<open>describe_table\<close>.\<close>

definition getDDBTableProvisionedCapacity_resp ::
  "describe_table_response option \<Rightarrow> string \<Rightarrow> string \<Rightarrow> string \<Rightarrow> string option
     \<Rightarrow> error + int option" where
  "getDDBTableProvisionedCapacity_resp resp tableName region capacityType indexName =
     (case resp of
        None \<Rightarrow> Inl (CouldNotRetrieveDescribeTable tableName region)
      | Some r \<Rightarrow>
          (case Table r of
             None \<Rightarrow> Inl (CouldNotRetrieveDescribeTable tableName region)
           | Some t \<Rightarrow>
               (case ProvisionedThroughput t of
                  None \<Rightarrow> Inl (CouldNotRetrieveDescribeTable tableName region)
                | Some pt \<Rightarrow>
                    if \<not> truthy indexName then
                      (if capacityType = ''read'' then Inr (Some (ReadCapacityUnits pt))
                       else if capacityType = ''write'' then Inr (Some (WriteCapacityUnits pt))
                       else Inl UnsupportedCapacityType)
                    else
                      (case GlobalSecondaryIndexes t of
                         None \<Rightarrow> Inl (CannotFindCapacity tableName (the indexName) region)
                       | Some inds \<Rightarrow>
                           getDDBTableProvisionedCapacity_loop capacityType
                             (the indexName) inds))))"

section \<open>The collaborators and the state of a run\<close>

text \<open>
  A \<open>datetime\<close> is a number of microseconds; \<open>timedelta(days=d)\<close> is \<open>d\<close> days of them.
\<close>

type_synonym datetime = int

definition timedelta_days :: "int \<Rightarrow> int" where
  "timedelta_days d = d * 86400000000"

text \<open>
  One datapoint of CloudWatch. The script reads the timestamp only through \<open>str\<close>
  (line 108), so the field holds that string.
\<close>

record datapoint =
  dp_Timestamp :: string
  dp_Sum :: real

record get_metric_statistics_response =
  Datapoints :: "datapoint list"

text \<open>The keyword arguments of \<open>get_metric_statistics\<close>, lines 49-50.\<close>

record get_metric_statistics_request =
  Namespace :: string
  MetricName :: string
  StartTime :: datetime
  EndTime :: datetime
  Period :: int
  Statistics :: "string list"
  Dimensions :: "(string \<times> string) list"
  Unit :: string

text \<open>
  What a run does to the outside: it reads the clock and calls three operations of boto3
  clients. Each of them is logged in the trace. The operations of the DynamoDB client
  carry the region its client was made for; the CloudWatch client is made without one.
\<close>

datatype event =
    DatetimeNow
  | ListTablesCall string
  | DescribeTableCall string string
  | GetMetricStatisticsCall get_metric_statistics_request

text \<open>
  The outside world answers. An answer may depend on when it is asked: the first
  argument is the number of events before the call. A boto3 call either raises or
  returns its response.
\<close>

record env =
  datetime_now :: "nat \<Rightarrow> datetime"
  list_tables :: "nat \<Rightarrow> string \<Rightarrow> error + list_tables_response option"
  describe_table :: "nat \<Rightarrow> string \<Rightarrow> string \<Rightarrow> error + describe_table_response option"
  get_metric_statistics ::
    "nat \<Rightarrow> get_metric_statistics_request \<Rightarrow> error + get_metric_statistics_response"

text \<open>
  A printed line is the format string with the arguments of \<open>.format\<close>, as the source
  writes it.
\<close>

datatype pyval = PyNone | PyInt int | PyFloat real | PyStr string | PySet "string list"

datatype line = Format string "pyval list"

record state =
  trace :: "event list"
  out :: "line list"

text \<open>
  A statement of the script takes the state and returns the new one with its value, or
  with the exception that ended it. Nothing catches an exception: the first one ends
  the run, and the state keeps what was printed and called before it.
\<close>

type_synonym 'a io = "state \<Rightarrow> (error + 'a) \<times> state"

definition io_return :: "'a \<Rightarrow> 'a io" where
  "io_return v st = (Inr v, st)"

definition io_lift :: "error + 'a \<Rightarrow> 'a io" where
  "io_lift r st = (r, st)"

definition io_bind :: "'a io \<Rightarrow> ('a \<Rightarrow> 'b io) \<Rightarrow> 'b io" where
  "io_bind m f st = (case m st of (Inl e, st') \<Rightarrow> (Inl e, st') | (Inr v, st') \<Rightarrow> f v st')"

definition print_line :: "line \<Rightarrow> unit io" where
  "print_line l st = (Inr (), st\<lparr>out := out st @ [l]\<rparr>)"

definition call_datetime_now :: "env \<Rightarrow> datetime io" where
  "call_datetime_now e st =
     (Inr (datetime_now e (length (trace st))), st\<lparr>trace := trace st @ [DatetimeNow]\<rparr>)"

definition call_list_tables :: "env \<Rightarrow> string \<Rightarrow> list_tables_response option io" where
  "call_list_tables e region st =
     (list_tables e (length (trace st)) region,
      st\<lparr>trace := trace st @ [ListTablesCall region]\<rparr>)"

definition call_describe_table ::
  "env \<Rightarrow> string \<Rightarrow> string \<Rightarrow> describe_table_response option io" where
  "call_describe_table e region tableName st =
     (describe_table e (length (trace st)) region tableName,
      st\<lparr>trace := trace st @ [DescribeTableCall region tableName]\<rparr>)"

definition call_get_metric_statistics ::
  "env \<Rightarrow> get_metric_statistics_request \<Rightarrow> get_metric_statistics_response io" where
  "call_get_metric_statistics e rq st =
     (get_metric_statistics e (length (trace st)) rq,
      st\<lparr>trace := trace st @ [GetMetricStatisticsCall rq]\<rparr>)"

section \<open>The functions that call the services\<close>

text \<open>Lines 30-52. The argument \<open>region\<close> is not used by the source.\<close>

definition getDDBMetricsStatistics ::
  "env \<Rightarrow> string \<Rightarrow> string \<Rightarrow> string \<Rightarrow> datetime \<Rightarrow> datetime \<Rightarrow> int \<Rightarrow> string \<Rightarrow> string
     \<Rightarrow> get_metric_statistics_response io" where
  "getDDBMetricsStatistics e tableName metricName region startTime endTime period statistic unit =
     call_get_metric_statistics e
       \<lparr>Namespace = ''AWS/DynamoDB'', MetricName = metricName, StartTime = startTime,
        EndTime = endTime, Period = period, Statistics = [statistic],
        Dimensions = [(''TableName'', tableName)], Unit = unit\<rparr>"

text \<open>Lines 54-71.\<close>

definition getDDBTableGlobalSecondaryIndexNames_resp ::
  "describe_table_response option \<Rightarrow> string \<Rightarrow> string \<Rightarrow> error + string list" where
  "getDDBTableGlobalSecondaryIndexNames_resp resp tableName region =
     (case resp of
        None \<Rightarrow> Inl (CouldNotRetrieveDescribeTable tableName region)
      | Some r \<Rightarrow>
          (case Table r of
             None \<Rightarrow> Inl (CouldNotRetrieveDescribeTable tableName region)
           | Some t \<Rightarrow>
               (case GlobalSecondaryIndexes t of
                  None \<Rightarrow> Inr []
                | Some inds \<Rightarrow> Inr (map IndexName inds))))"

definition getDDBTableGlobalSecondaryIndexNames :: "env \<Rightarrow> string \<Rightarrow> string \<Rightarrow> string list io" where
  "getDDBTableGlobalSecondaryIndexNames e tableName region =
     io_bind (call_describe_table e region tableName)
       (\<lambda>resp. io_lift (getDDBTableGlobalSecondaryIndexNames_resp resp tableName region))"

text \<open>Lines 74-102.\<close>

definition getDDBTableProvisionedCapacity ::
  "env \<Rightarrow> string \<Rightarrow> string \<Rightarrow> string \<Rightarrow> string option \<Rightarrow> int option io" where
  "getDDBTableProvisionedCapacity e tableName region capacityType indexName =
     io_bind (call_describe_table e region tableName)
       (\<lambda>resp. io_lift
          (getDDBTableProvisionedCapacity_resp resp tableName region capacityType indexName))"

section \<open>The utilization computation\<close>

text \<open>
  Lines 105-109. The dictionary is an association list: a later datapoint with the
  timestamp of an earlier one replaces its value. The list keeps the order of first
  insertion; Python 2 leaves the order of \<open>iteritems\<close> open, and the loop below gives
  the same result for every order (lemma \<open>loop_set\<close>).
\<close>

definition getMetricsDataPoints :: "datapoint list \<Rightarrow> (string \<times> real) list" where
  "getMetricsDataPoints inputJson =
     foldl (\<lambda>provisionedDDBCapacity dp.
              AList.update (dp_Timestamp dp) (dp_Sum dp) provisionedDDBCapacity)
       [] inputJson"

text \<open>
  Lines 136-139, the loop over the items of the dictionary, with \<open>maxUsed\<close> as the
  accumulator. \<open>float(readCapacityUnits)\<close> raises \<open>TypeError\<close> on \<open>None\<close>, and the
  division raises \<open>ZeroDivisionError\<close> on zero.
\<close>

fun determineUnusedDDBCapacity_loop ::
  "int option \<Rightarrow> (string \<times> real) list \<Rightarrow> real \<Rightarrow> error + real" where
  "determineUnusedDDBCapacity_loop readCapacityUnits [] maxUsed = Inr maxUsed"
| "determineUnusedDDBCapacity_loop readCapacityUnits ((ts, uc) # items) maxUsed =
     (case readCapacityUnits of
        None \<Rightarrow> Inl TypeError
      | Some p \<Rightarrow>
          if p = 0 then Inl ZeroDivisionError
          else
            (let consumedCapacity = uc / real_of_int p * 100
             in determineUnusedDDBCapacity_loop readCapacityUnits items
                  (if consumedCapacity > maxUsed then consumedCapacity else maxUsed)))"

text \<open>Lines 130-141: the line that reports the peak, or the exception of the loop.\<close>

definition determineUnusedDDBCapacity_report ::
  "string \<Rightarrow> int option \<Rightarrow> datapoint list \<Rightarrow> error + line" where
  "determineUnusedDDBCapacity_report tableName readCapacityUnits datapoints =
     (if datapoints = [] then
        Inr (Format ''Table {0} has max consumed capacity of 0% '' [PyStr tableName])
      else
        (case determineUnusedDDBCapacity_loop readCapacityUnits
                (getMetricsDataPoints datapoints) 0 of
           Inl err \<Rightarrow> Inl err
         | Inr maxUsed \<Rightarrow>
             Inr (Format ''Table {0} has max consumed capacity of {1}% ''
                    [PyStr tableName, PyFloat maxUsed])))"

definition py_int :: "int option \<Rightarrow> pyval" where
  "py_int v = (case v of None \<Rightarrow> PyNone | Some i \<Rightarrow> PyInt i)"

text \<open>Lines 115-126: the two capacities and the two lines that print them.\<close>

definition determineUnusedDDBCapacity_capacity ::
  "env \<Rightarrow> string \<Rightarrow> string \<Rightarrow> string option \<Rightarrow> (int option \<times> int option) io" where
  "determineUnusedDDBCapacity_capacity e region tableName indexName =
     (if \<not> truthy indexName then
        io_bind (getDDBTableProvisionedCapacity e tableName region ''read'' None)
          (\<lambda>readCapacityUnits.
        io_bind (getDDBTableProvisionedCapacity e tableName region ''write'' None)
          (\<lambda>writeCapacityUnits.
        io_bind (print_line (Format ''Provisioned Read Capacity Unit for table {0} is {1}''
                   [PyStr tableName, py_int readCapacityUnits]))
          (\<lambda>_.
        io_bind (print_line (Format ''Provisioned Write Capacity Unit for table {0} is {1}''
                   [PyStr tableName, py_int writeCapacityUnits]))
          (\<lambda>_. io_return (readCapacityUnits, writeCapacityUnits)))))
      else
        io_bind (getDDBTableProvisionedCapacity e tableName region ''read'' indexName)
          (\<lambda>readCapacityUnits.
        io_bind (getDDBTableProvisionedCapacity e tableName region ''write'' indexName)
          (\<lambda>writeCapacityUnits.
        io_bind (print_line
                   (Format ''Provisioned Read Capacity Unit for table {0} and index {1} is {2}''
                      [PyStr tableName, PyStr (the indexName), py_int readCapacityUnits]))
          (\<lambda>_.
        io_bind (print_line
                   (Format ''Provisioned Write Capacity Unit for table {0} and index {1} is {2}''
                      [PyStr tableName, PyStr (the indexName), py_int writeCapacityUnits]))
          (\<lambda>_. io_return (readCapacityUnits, writeCapacityUnits))))))"

text \<open>Lines 111-141.\<close>

definition determineUnusedDDBCapacity :: "env \<Rightarrow> string \<Rightarrow> string \<Rightarrow> string option \<Rightarrow> unit io" where
  "determineUnusedDDBCapacity e region tableName indexName =
     io_bind (call_datetime_now e)
       (\<lambda>endTime.
     io_bind (call_datetime_now e)
       (\<lambda>now.
     io_bind (determineUnusedDDBCapacity_capacity e region tableName indexName)
       (\<lambda>(readCapacityUnits, writeCapacityUnits).
     io_bind (getDDBMetricsStatistics e tableName CONSUMED_READ_CAPACITY_UNITS region
                (now - timedelta_days 5) endTime 300 ''Sum'' ''Count'')
       (\<lambda>consumedReadCapacityMetricsData.
     io_bind (io_lift (determineUnusedDDBCapacity_report tableName readCapacityUnits
                (Datapoints consumedReadCapacityMetricsData)))
       print_line))))"

section \<open>identifyUnusedDDBCapacity\<close>

text \<open>Lines 165-166, the loop over the index names of one table.\<close>

fun identifyUnusedDDBCapacity_indexes :: "env \<Rightarrow> string \<Rightarrow> string \<Rightarrow> string list \<Rightarrow> unit io" where
  "identifyUnusedDDBCapacity_indexes e region tableName [] = io_return ()"
| "identifyUnusedDDBCapacity_indexes e region tableName (ti # tableIndexes) =
     io_bind (determineUnusedDDBCapacity e region tableName (Some ti))
       (\<lambda>_. identifyUnusedDDBCapacity_indexes e region tableName tableIndexes)"

text \<open>
  Lines 151-166, the loop over the table names. Python leaves the order in which a set
  is iterated open; the loop is defined for any list of names.
\<close>

fun identifyUnusedDDBCapacity_tables ::
  "env \<Rightarrow> string \<Rightarrow> string option \<Rightarrow> string list \<Rightarrow> unit io" where
  "identifyUnusedDDBCapacity_tables e region tableToCheck [] = io_return ()"
| "identifyUnusedDDBCapacity_tables e region tableToCheck (tableName # tableNames) =
     (if truthy tableToCheck \<and> tableToCheck \<noteq> Some tableName then
        identifyUnusedDDBCapacity_tables e region tableToCheck tableNames
      else
        io_bind (determineUnusedDDBCapacity e region tableName None)
          (\<lambda>_.
        io_bind (getDDBTableGlobalSecondaryIndexNames e tableName region)
          (\<lambda>tableIndexes.
        io_bind (if tableIndexes = [] then
                   print_line (Format ''No LSI or GSI found for table {0}'' [PyStr tableName])
                 else io_return ())
          (\<lambda>_.
        io_bind (identifyUnusedDDBCapacity_indexes e region tableName tableIndexes)
          (\<lambda>_. identifyUnusedDDBCapacity_tables e region tableToCheck tableNames)))))"

text \<open>Lines 143-166.\<close>

definition identifyUnusedDDBCapacity :: "env \<Rightarrow> string \<Rightarrow> string option \<Rightarrow> unit io" where
  "identifyUnusedDDBCapacity e region tableToCheck =
     io_bind (call_list_tables e region)
       (\<lambda>resp.
     io_bind (io_lift (parseDDBTableList resp))
       (\<lambda>tableNames.
     io_bind (print_line (Format ''Table Names for Region {0} are {1}''
                [PyStr region, PySet tableNames]))
       (\<lambda>_. identifyUnusedDDBCapacity_tables e region tableToCheck tableNames)))"

definition initial_state :: state where
  "initial_state = \<lparr>trace = [], out = []\<rparr>"

section \<open>The text of a printed line\<close>

text \<open>
  \<open>str.format\<close> for the templates of the script: the positional fields \<open>{0}\<close>,
  \<open>{1}\<close> and \<open>{2}\<close> are replaced by the texts of the arguments.
\<close>

definition field_index :: "char \<Rightarrow> nat option" where
  "field_index c =
     (if c = CHR ''0'' then Some 0 else if c = CHR ''1'' then Some 1
      else if c = CHR ''2'' then Some 2 else None)"

fun str_format :: "string \<Rightarrow> string list \<Rightarrow> string" where
  "str_format [] args = []"
| "str_format [c] args = [c]"
| "str_format [c, d] args = [c, d]"
| "str_format (c # d # e # rest) args =
     (if c = CHR ''{'' \<and> e = CHR ''}'' then
        (case field_index d of
           Some i \<Rightarrow> (if i < length args then args ! i @ str_format rest args
                      else c # str_format (d # e # rest) args)
         | None \<Rightarrow> c # str_format (d # e # rest) args)
      else c # str_format (d # e # rest) args)"

text \<open>
  The text of an argument: a string is its own text; the text of a number, of \<open>None\<close>
  or of a set is what Python's formatting makes of it, the parameter \<open>str\<close>.
\<close>

definition str_arg :: "(pyval \<Rightarrow> string) \<Rightarrow> pyval \<Rightarrow> string" where
  "str_arg str v = (case v of PyStr s \<Rightarrow> s | _ \<Rightarrow> str v)"

fun render :: "(pyval \<Rightarrow> string) \<Rightarrow> line \<Rightarrow> string" where
  "render str (Format template args) = str_format template (map (str_arg str) args)"

text \<open>The text of a line all of whose arguments are strings.\<close>

fun strings_of :: "pyval list \<Rightarrow> string list option" where
  "strings_of [] = Some []"
| "strings_of (PyStr s # vs) = map_option ((#) s) (strings_of vs)"
| "strings_of (_ # vs) = None"

fun plain_text :: "line \<Rightarrow> string option" where
  "plain_text (Format template args) = map_option (str_format template) (strings_of args)"

text \<open>The text of line 141 for a table and the text of a number.\<close>

definition numeric_report :: "string \<Rightarrow> string \<Rightarrow> string" where
  "numeric_report tableName number =
     ''Table '' @ tableName @ '' has max consumed capacity of '' @ number @ ''% ''"

section \<open>Properties of a run\<close>

text \<open>
  The request that \<open>determineUnusedDDBCapacity\<close> sends for a table when it starts after
  \<open>n\<close> events: its two readings of the clock are the events \<open>n\<close> and \<open>n + 1\<close>.
\<close>

definition consumed_read_request :: "env \<Rightarrow> string \<Rightarrow> nat \<Rightarrow> get_metric_statistics_request" where
  "consumed_read_request e tableName n =
     \<lparr>Namespace = ''AWS/DynamoDB'', MetricName = ''ConsumedReadCapacityUnits'',
      StartTime = datetime_now e (Suc n) - timedelta_days 5, EndTime = datetime_now e n,
      Period = 300, Statistics = [''Sum''], Dimensions = [(''TableName'', tableName)],
      Unit = ''Count''\<rparr>"

text \<open>
  The events of one call of \<open>determineUnusedDDBCapacity\<close> that starts after \<open>n\<close>
  events and is not ended by an exception before its last call.
\<close>

definition determineUnusedDDBCapacity_events :: "env \<Rightarrow> string \<Rightarrow> string \<Rightarrow> nat \<Rightarrow> event list" where
  "determineUnusedDDBCapacity_events e region tableName n =
     [DatetimeNow, DatetimeNow, DescribeTableCall region tableName,
      DescribeTableCall region tableName,
      GetMetricStatisticsCall (consumed_read_request e tableName n)]"

text \<open>
  What holds of the event at position \<open>k\<close> of the trace of a run that works on the
  tables \<open>T\<close>.
\<close>

definition event_ok :: "env \<Rightarrow> string set \<Rightarrow> event list \<Rightarrow> nat \<Rightarrow> event \<Rightarrow> bool" where
  "event_ok e T tr k ev =
     (case ev of
        DatetimeNow \<Rightarrow> True
      | ListTablesCall region \<Rightarrow> k = 0
      | DescribeTableCall region tableName \<Rightarrow> tableName \<in> T
      | GetMetricStatisticsCall rq \<Rightarrow>
          4 \<le> k \<and> tr ! (k - 4) = DatetimeNow \<and> tr ! (k - 3) = DatetimeNow \<and>
          (\<exists>tableName\<in>T. rq = consumed_read_request e tableName (k - 4)))"

definition run_ok :: "env \<Rightarrow> string set \<Rightarrow> event list \<Rightarrow> bool" where
  "run_ok e T tr = (\<forall>k<length tr. event_ok e T tr k (tr ! k))"

text \<open>
  A statement keeps a property of the trace.
\<close>

definition keeps :: "(event list \<Rightarrow> bool) \<Rightarrow> 'a io \<Rightarrow> bool" where
  "keeps I m = (\<forall>st. I (trace st) \<longrightarrow> I (trace (snd (m st))))"

text \<open>
  The table names that the loop of lines 151-166 does not skip.
\<close>

definition processed :: "string option \<Rightarrow> string list \<Rightarrow> string set" where
  "processed tableToCheck tableNames =
     {tableName \<in> set tableNames. \<not> (truthy tableToCheck \<and> tableToCheck \<noteq> Some tableName)}"

text \<open>
  The value of \<open>tableNames\<close> in line 147 of a run that starts with no event before
  it; the empty list when line 146 or 147 raises.
\<close>

definition identifyUnusedDDBCapacity_tableNames :: "env \<Rightarrow> string \<Rightarrow> string list" where
  "identifyUnusedDDBCapacity_tableNames e region =
     (case list_tables e 0 region of
        Inl err \<Rightarrow> []
      | Inr resp \<Rightarrow> (case parseDDBTableList resp of Inl err \<Rightarrow> [] | Inr tableNames \<Rightarrow> tableNames))"

text \<open>
  The table that a call names.
\<close>

fun event_table :: "event \<Rightarrow> string option" where
  "event_table DatetimeNow = None"
| "event_table (ListTablesCall region) = None"
| "event_table (DescribeTableCall region tableName) = Some tableName"
| "event_table (GetMetricStatisticsCall rq) = map_of (Dimensions rq) ''TableName''"

text \<open>
  A world with the two tables of the specification's scenarios: "Orders" with read
  capacity 100, the samples 20, 55, 90 and 10 and the index "byCustomer" with read
  capacity 20, and "Empty" with read capacity 50 and no datapoints.
\<close>

definition example_env :: env where
  "example_env =
     \<lparr>datetime_now = (\<lambda>n. 1510000000000000 + int n),
      list_tables = (\<lambda>n region. Inr (Some \<lparr>TableNames = [''Orders'', ''Empty'']\<rparr>)),
      describe_table = (\<lambda>n region tableName.
        if tableName = ''Orders'' then
          Inr (Some \<lparr>Table = Some
            \<lparr>ProvisionedThroughput = Some \<lparr>ReadCapacityUnits = 100, WriteCapacityUnits = 40\<rparr>,
             GlobalSecondaryIndexes = Some
               [\<lparr>IndexName = ''byCustomer'',
                 IndexProvisionedThroughput =
                   \<lparr>ReadCapacityUnits = 20, WriteCapacityUnits = 10\<rparr>\<rparr>]\<rparr>\<rparr>)
        else if tableName = ''Empty'' then
          Inr (Some \<lparr>Table = Some
            \<lparr>ProvisionedThroughput = Some \<lparr>ReadCapacityUnits = 50, WriteCapacityUnits = 50\<rparr>,
             GlobalSecondaryIndexes = None\<rparr>\<rparr>)
        else Inl (ClientError ''ResourceNotFoundException'')),
      get_metric_statistics = (\<lambda>n rq.
        if Dimensions rq = [(''TableName'', ''Orders'')] then
          Inr \<lparr>Datapoints =
            [\<lparr>dp_Timestamp = ''2017-11-10 12:00:00'', dp_Sum = 20\<rparr>,
             \<lparr>dp_Timestamp = ''2017-11-10 12:05:00'', dp_Sum = 55\<rparr>,
             \<lparr>dp_Timestamp = ''2017-11-10 12:10:00'', dp_Sum = 90\<rparr>,
             \<lparr>dp_Timestamp = ''2017-11-10 12:15:00'', dp_Sum = 10\<rparr>]\<rparr>
        else Inr \<lparr>Datapoints = []\<rparr>)\<rparr>"

text \<open>
  A world whose \<open>describe_table\<close> answers as that of \<open>e\<close> does, with every
  \<open>WriteCapacityUnits\<close> \<open>w\<close> replaced by \<open>f w\<close>.
\<close>

definition change_write_throughput :: "(int \<Rightarrow> int) \<Rightarrow> provisioned_throughput \<Rightarrow> provisioned_throughput" where
  "change_write_throughput f pt = pt\<lparr>WriteCapacityUnits := f (WriteCapacityUnits pt)\<rparr>"

definition change_write_table :: "(int \<Rightarrow> int) \<Rightarrow> table_description \<Rightarrow> table_description" where
  "change_write_table f t =
     \<lparr>ProvisionedThroughput = map_option (change_write_throughput f) (ProvisionedThroughput t),
      GlobalSecondaryIndexes =
        map_option
          (map (\<lambda>ind. \<lparr>IndexName = IndexName ind,
                        IndexProvisionedThroughput =
                          change_write_throughput f (IndexProvisionedThroughput ind)\<rparr>))
          (GlobalSecondaryIndexes t)\<rparr>"

definition change_write_response ::
  "(int \<Rightarrow> int) \<Rightarrow> describe_table_response option \<Rightarrow> describe_table_response option" where
  "change_write_response f resp =
     map_option (\<lambda>r. \<lparr>Table = map_option (change_write_table f) (Table r)\<rparr>) resp"

definition change_write_capacity :: "(int \<Rightarrow> int) \<Rightarrow> env \<Rightarrow> env" where
  "change_write_capacity f e =
     \<lparr>datetime_now = datetime_now e,
      list_tables = list_tables e,
      describe_table = (\<lambda>n region tableName.
        map_sum id (change_write_response f) (describe_table e n region tableName)),
      get_metric_statistics = get_metric_statistics e\<rparr>"

text \<open>
  The lines 121 and 126, which print the write capacity.
\<close>

fun is_write_capacity_line :: "line \<Rightarrow> bool" where
  "is_write_capacity_line (Format template args) =
     (template = ''Provisioned Write Capacity Unit for table {0} is {1}''
      \<or> template = ''Provisioned Write Capacity Unit for table {0} and index {1} is {2}'')"

text \<open>
  What a run shows apart from those lines: how it ended, its calls and its other lines.
\<close>

definition read_view :: "(error + unit) \<times> state \<Rightarrow> (error + unit) \<times> event list \<times> line list" where
  "read_view r = (fst r, trace (snd r), filter (\<lambda>l. \<not> is_write_capacity_line l) (out (snd r)))"

text \<open>
  A world whose table has no \<open>ProvisionedThroughput\<close>, as a table with on-demand
  billing.
\<close>

definition on_demand_env :: env where
  "on_demand_env =
     \<lparr>datetime_now = (\<lambda>n. 1510000000000000 + int n),
      list_tables = (\<lambda>n region. Inr (Some \<lparr>TableNames = [''Orders'']\<rparr>)),
      describe_table = (\<lambda>n region tableName.
        Inr (Some \<lparr>Table = Some \<lparr>ProvisionedThroughput = None,
                                   GlobalSecondaryIndexes = None\<rparr>\<rparr>)),
      get_metric_statistics = (\<lambda>n rq. Inr \<lparr>Datapoints = []\<rparr>)\<rparr>"

section \<open>Lemmas on the utilization computation\<close>

lemma getMetricsDataPoints_snoc:
  "getMetricsDataPoints (S @ [dp]) = AList.update (dp_Timestamp dp) (dp_Sum dp) (getMetricsDataPoints S)"
  by (simp add: getMetricsDataPoints_def)

lemma getMetricsDataPoints_keys: "fst ` set (getMetricsDataPoints S) = dp_Timestamp ` set S"
  by (induction S rule: rev_induct) (auto simp: getMetricsDataPoints_snoc dom_update getMetricsDataPoints_def)

lemma update_fresh: "k \<notin> fst ` set al \<Longrightarrow> AList.update k v al = al @ [(k, v)]"
  by (induction al) auto

lemma getMetricsDataPoints_distinct:
  "distinct (map dp_Timestamp S) \<Longrightarrow> getMetricsDataPoints S = map (\<lambda>dp. (dp_Timestamp dp, dp_Sum dp)) S"
proof (induction S rule: rev_induct)
  case Nil
  show ?case by (simp add: getMetricsDataPoints_def)
next
  case (snoc dp S)
  then have IH: "getMetricsDataPoints S = map (\<lambda>dp. (dp_Timestamp dp, dp_Sum dp)) S" by simp
  have "dp_Timestamp dp \<notin> fst ` set (getMetricsDataPoints S)"
    using snoc.prems by (simp add: getMetricsDataPoints_keys)
  then show ?case
    by (simp add: getMetricsDataPoints_snoc update_fresh IH)
qed

lemma Max_insert_pair:
  fixes m c :: real
  assumes "finite F"
  shows "Max (insert m (insert c F)) = Max (insert (if c > m then c else m) F)"
proof (cases "F = {}")
  case True
  then show ?thesis by (simp add: max_def)
next
  case False
  with assms show ?thesis by (simp add: max_def)
qed

lemma loop_nonzero:
  "p \<noteq> 0 \<Longrightarrow>
   determineUnusedDDBCapacity_loop (Some p) items m =
     Inr (Max (insert m ((\<lambda>(ts, uc). uc / real_of_int p * 100) ` set items)))"
proof (induction items arbitrary: m)
  case Nil
  show ?case by simp
next
  case (Cons a items)
  obtain ts uc where a: "a = (ts, uc)" by (cases a)
  have "determineUnusedDDBCapacity_loop (Some p) (a # items) m =
        determineUnusedDDBCapacity_loop (Some p) items
          (if uc / real_of_int p * 100 > m then uc / real_of_int p * 100 else m)"
    using Cons.prems by (simp add: a Let_def)
  also have "\<dots> = Inr (Max (insert (if uc / real_of_int p * 100 > m then uc / real_of_int p * 100 else m)
                 ((\<lambda>(ts, uc). uc / real_of_int p * 100) ` set items)))"
    using Cons.prems by (rule Cons.IH)
  also have "\<dots> = Inr (Max (insert m ((\<lambda>(ts, uc). uc / real_of_int p * 100) ` set (a # items))))"
    using Max_insert_pair [of "(\<lambda>(ts, uc). uc / real_of_int p * 100) ` set items" m "uc / real_of_int p * 100"]
    by (simp add: a)
  finally show ?case .
qed

lemma loop_None: "items \<noteq> [] \<Longrightarrow> determineUnusedDDBCapacity_loop None items m = Inl TypeError"
  by (cases items) auto

lemma loop_zero: "items \<noteq> [] \<Longrightarrow> determineUnusedDDBCapacity_loop (Some 0) items m = Inl ZeroDivisionError"
  by (cases items) auto

lemma loop_set:
  assumes "set items = set items'"
  shows "determineUnusedDDBCapacity_loop rcu items m = determineUnusedDDBCapacity_loop rcu items' m"
proof -
  have e: "items = [] \<longleftrightarrow> items' = []" using assms by (metis set_empty)
  show ?thesis
  proof (cases "items = []")
    case True
    with e show ?thesis by simp
  next
    case False
    with e have ne: "items' \<noteq> []" by simp
    show ?thesis
    proof (cases rcu)
      case None
      then show ?thesis using False ne by (simp add: loop_None)
    next
      case (Some p)
      then show ?thesis using False ne assms by (cases "p = 0") (simp_all add: loop_zero loop_nonzero)
    qed
  qed
qed

lemma Max_scale:
  fixes V :: "real set"
  assumes "finite V" "V \<noteq> {}" "\<forall>v\<in>V. 0 \<le> v" "0 < (c::real)"
  shows "Max (insert 0 ((\<lambda>u. u / c * 100) ` V)) = Max V / c * 100"
proof -
  define f where "f = (\<lambda>u::real. u / c * 100)"
  have m: "mono f"
    using assms(4) by (auto simp: f_def mono_def divide_right_mono)
  have eq: "Max (f ` V) = f (Max V)"
    using mono_Max_commute [OF m assms(1,2)] by simp
  have "0 \<le> Max V" using assms by (meson Max_in)
  then have nn: "0 \<le> f (Max V)" using assms(4) by (simp add: f_def)
  have "Max (insert 0 (f ` V)) = max 0 (Max (f ` V))"
    using assms(1,2) by simp
  also have "\<dots> = f (Max V)" using nn by (simp add: eq max_def)
  finally show ?thesis by (simp add: f_def)
qed


lemma str_format_peak:
  "str_format ''Table {0} has max consumed capacity of {1}% '' [t, n] = numeric_report t n"
  by (simp add: numeric_report_def field_index_def)

lemma str_format_zero:
  "str_format ''Table {0} has max consumed capacity of 0% '' [t] = numeric_report t ''0''"
  by (simp add: numeric_report_def field_index_def)



declare str_format.simps [simp del]

lemma numeric_report_inj: "numeric_report t a = numeric_report t b \<longleftrightarrow> a = b"
  by (simp add: numeric_report_def)

lemma getMetricsDataPoints_empty: "getMetricsDataPoints S = [] \<longleftrightarrow> S = []"
  using getMetricsDataPoints_keys [of S] by (metis image_is_empty set_empty)

lemma update_values: "snd ` set (AList.update k v al) \<subseteq> insert v (snd ` set al)"
  by (induction al) auto

lemma getMetricsDataPoints_values: "snd ` set (getMetricsDataPoints S) \<subseteq> dp_Sum ` set S"
proof (induction S rule: rev_induct)
  case Nil
  show ?case by (simp add: getMetricsDataPoints_def)
next
  case (snoc dp S)
  have "snd ` set (getMetricsDataPoints (S @ [dp])) \<subseteq>
        insert (dp_Sum dp) (snd ` set (getMetricsDataPoints S))"
    unfolding getMetricsDataPoints_snoc by (rule update_values)
  also have "\<dots> \<subseteq> insert (dp_Sum dp) (dp_Sum ` set S)"
    using snoc.IH by (rule insert_mono)
  also have "\<dots> = dp_Sum ` set (S @ [dp])" by simp
  finally show ?case .
qed

lemma report_zero_peak:
  assumes "S \<noteq> []" and "\<forall>dp\<in>set S. dp_Sum dp = 0" and "0 < p"
  shows "determineUnusedDDBCapacity_report tableName (Some p) S =
           Inr (Format ''Table {0} has max consumed capacity of {1}% ''
                  [PyStr tableName, PyFloat 0])"
proof -
  define f where "f = (\<lambda>(ts::string, uc::real). uc / real_of_int p * 100)"
  have ne: "set (getMetricsDataPoints S) \<noteq> {}"
    using assms(1) by (simp add: getMetricsDataPoints_empty)
  have zero: "f x = 0" if "x \<in> set (getMetricsDataPoints S)" for x
  proof -
    have "snd x \<in> dp_Sum ` set S"
      using that getMetricsDataPoints_values [of S] by blast
    then have "snd x = 0" using assms(2) by auto
    then show ?thesis by (cases x) (simp add: f_def)
  qed
  have "f ` set (getMetricsDataPoints S) = {0}"
  proof
    show "f ` set (getMetricsDataPoints S) \<subseteq> {0}" using zero by blast
    obtain x xs where "getMetricsDataPoints S = x # xs"
      using ne by (cases "getMetricsDataPoints S") simp_all
    then have "x \<in> set (getMetricsDataPoints S)" by simp
    then have "f x \<in> f ` set (getMetricsDataPoints S)" by (rule imageI)
    then show "{0} \<subseteq> f ` set (getMetricsDataPoints S)"
      using zero [OF \<open>x \<in> set (getMetricsDataPoints S)\<close>] by simp
  qed
  then have mx: "Max (insert 0 (f ` set (getMetricsDataPoints S))) = 0" by simp
  have p: "p \<noteq> 0" using assms(3) by simp
  have "determineUnusedDDBCapacity_loop (Some p) (getMetricsDataPoints S) 0 = Inr 0"
    unfolding loop_nonzero [OF p] f_def [symmetric] mx ..
  then show ?thesis
    using assms(1) unfolding determineUnusedDDBCapacity_report_def by simp
qed


section \<open>Lemmas on the trace of a run\<close>

lemma capacity_trace:
  "trace (snd (determineUnusedDDBCapacity_capacity e region tn ix st)) =
     trace st @ [DescribeTableCall region tn] \<and>
     (\<exists>err. fst (determineUnusedDDBCapacity_capacity e region tn ix st) = Inl err)
   \<or> trace (snd (determineUnusedDDBCapacity_capacity e region tn ix st)) =
     trace st @ [DescribeTableCall region tn, DescribeTableCall region tn]"
  by (simp add: determineUnusedDDBCapacity_capacity_def getDDBTableProvisionedCapacity_def
      io_bind_def call_describe_table_def io_lift_def print_line_def io_return_def
      split: sum.splits)

lemma io_bind_Inl: "fst (m st) = Inl err \<Longrightarrow> io_bind m f st = (Inl err, snd (m st))"
  by (cases "m st") (auto simp: io_bind_def)

lemma io_bind_Inr: "fst (m st) = Inr v \<Longrightarrow> io_bind m f st = f v (snd (m st))"
  by (cases "m st") (auto simp: io_bind_def)

lemma determineUnusedDDBCapacity_clock:
  "determineUnusedDDBCapacity e region tn ix st =
     io_bind (determineUnusedDDBCapacity_capacity e region tn ix)
       (\<lambda>(readCapacityUnits, writeCapacityUnits).
          io_bind (call_get_metric_statistics e (consumed_read_request e tn (length (trace st))))
            (\<lambda>consumedReadCapacityMetricsData.
               io_bind (io_lift (determineUnusedDDBCapacity_report tn readCapacityUnits
                  (Datapoints consumedReadCapacityMetricsData))) print_line))
       (st\<lparr>trace := trace st @ [DatetimeNow, DatetimeNow]\<rparr>)"
  unfolding determineUnusedDDBCapacity_def getDDBMetricsStatistics_def consumed_read_request_def
    CONSUMED_READ_CAPACITY_UNITS_def
  by (simp add: io_bind_def [of "call_datetime_now e"] call_datetime_now_def)

lemma report_print_trace:
  "trace (snd (io_bind (io_lift r) print_line st)) = trace st"
  by (cases r) (simp_all add: io_bind_def io_lift_def print_line_def)

lemma metrics_trace:
  "trace (snd (io_bind (call_get_metric_statistics e rq)
      (\<lambda>d. io_bind (io_lift (g d)) print_line) st)) = trace st @ [GetMetricStatisticsCall rq]"
proof (cases "get_metric_statistics e (length (trace st)) rq")
  case (Inl err)
  then show ?thesis by (simp add: io_bind_def call_get_metric_statistics_def)
next
  case (Inr d)
  then have "io_bind (call_get_metric_statistics e rq)
      (\<lambda>d. io_bind (io_lift (g d)) print_line) st =
      io_bind (io_lift (g d)) print_line (st\<lparr>trace := trace st @ [GetMetricStatisticsCall rq]\<rparr>)"
    by (simp add: io_bind_def [of "call_get_metric_statistics e rq"] call_get_metric_statistics_def)
  then show ?thesis by (simp add: report_print_trace)
qed

lemma determineUnusedDDBCapacity_trace:
  "\<exists>evs. trace (snd (determineUnusedDDBCapacity e region tn ix st)) = trace st @ evs
       \<and> prefix evs (determineUnusedDDBCapacity_events e region tn (length (trace st)))"
proof -
  let ?st2 = "st\<lparr>trace := trace st @ [DatetimeNow, DatetimeNow]\<rparr>"
  let ?c = "determineUnusedDDBCapacity_capacity e region tn ix ?st2"
  show ?thesis
  proof (cases "fst ?c")
    case (Inl err)
    then have "snd (determineUnusedDDBCapacity e region tn ix st) = snd ?c"
      unfolding determineUnusedDDBCapacity_clock by (simp add: io_bind_Inl)
    then show ?thesis
      using capacity_trace [of e region tn ix ?st2]
      by (auto simp: determineUnusedDDBCapacity_events_def)
  next
    case (Inr rw)
    then have tr: "trace (snd ?c) = trace st @ [DatetimeNow, DatetimeNow,
        DescribeTableCall region tn, DescribeTableCall region tn]"
      using capacity_trace [of e region tn ix ?st2] by auto
    obtain r w where rw: "rw = (r, w)" by (cases rw)
    have "trace (snd (determineUnusedDDBCapacity e region tn ix st)) =
          trace (snd ?c) @ [GetMetricStatisticsCall
            (consumed_read_request e tn (length (trace st)))]"
      unfolding determineUnusedDDBCapacity_clock using Inr
      by (simp add: io_bind_Inr rw metrics_trace)
    then show ?thesis
      by (simp add: tr determineUnusedDDBCapacity_events_def)
  qed
qed

lemma event_ok_append:
  "k < length tr \<Longrightarrow> event_ok e T (tr @ xs) k ev = event_ok e T tr k ev"
  by (cases ev) (auto simp: event_ok_def nth_append)

lemma run_ok_snoc:
  "run_ok e T (tr @ [ev]) = (run_ok e T tr \<and> event_ok e T (tr @ [ev]) (length tr) ev)"
  by (auto simp: run_ok_def less_Suc_eq nth_append event_ok_append)

lemma run_ok_prefix:
  assumes "run_ok e T tr" and "prefix tr' tr"
  shows "run_ok e T tr'"
proof -
  obtain zs where tr: "tr = tr' @ zs" using assms(2) by (auto simp: prefix_def)
  show ?thesis
    unfolding run_ok_def
  proof (intro allI impI)
    fix k assume k: "k < length tr'"
    then have "event_ok e T tr k (tr ! k)" using assms(1) by (simp add: run_ok_def tr)
    then show "event_ok e T tr' k (tr' ! k)"
      using k by (simp add: tr event_ok_append nth_append)
  qed
qed

lemma run_ok_events:
  assumes "run_ok e T tr" and "t \<in> T"
  shows "run_ok e T (tr @ determineUnusedDDBCapacity_events e region t (length tr))"
proof -
  have 1: "run_ok e T (tr @ [DatetimeNow])"
    using assms(1) by (simp add: run_ok_snoc event_ok_def)
  have 2: "run_ok e T ((tr @ [DatetimeNow]) @ [DatetimeNow])"
    using 1 by (subst run_ok_snoc) (simp add: event_ok_def)
  have 3: "run_ok e T ((tr @ [DatetimeNow, DatetimeNow]) @ [DescribeTableCall region t])"
    using 2 assms(2) by (subst run_ok_snoc) (simp add: event_ok_def)
  have 4: "run_ok e T ((tr @ [DatetimeNow, DatetimeNow, DescribeTableCall region t])
             @ [DescribeTableCall region t])"
    using 3 assms(2) by (subst run_ok_snoc) (simp add: event_ok_def)
  have 5: "run_ok e T ((tr @ [DatetimeNow, DatetimeNow, DescribeTableCall region t,
             DescribeTableCall region t])
             @ [GetMetricStatisticsCall (consumed_read_request e t (length tr))])"
    using 4 assms(2) by (subst run_ok_snoc) (auto simp: event_ok_def nth_append)
  then show ?thesis by (simp add: determineUnusedDDBCapacity_events_def)
qed

lemma keeps_bind: "keeps I m \<Longrightarrow> (\<And>v. keeps I (f v)) \<Longrightarrow> keeps I (io_bind m f)"
  unfolding keeps_def io_bind_def
  by (auto split: prod.splits sum.splits)

lemma keeps_return: "keeps I (io_return v)"
  by (simp add: keeps_def io_return_def)

lemma keeps_print: "keeps I (print_line l)"
  by (simp add: keeps_def print_line_def)

lemma keeps_determineUnusedDDBCapacity:
  assumes "t \<in> T"
  shows "keeps (run_ok e T) (determineUnusedDDBCapacity e region t ix)"
  unfolding keeps_def
proof (intro allI impI)
  fix st :: state
  assume ok: "run_ok e T (trace st)"
  obtain evs where evs: "trace (snd (determineUnusedDDBCapacity e region t ix st)) = trace st @ evs"
    "prefix evs (determineUnusedDDBCapacity_events e region t (length (trace st)))"
    using determineUnusedDDBCapacity_trace by blast
  have "prefix (trace st @ evs)
          (trace st @ determineUnusedDDBCapacity_events e region t (length (trace st)))"
    using evs(2) by simp
  then show "run_ok e T (trace (snd (determineUnusedDDBCapacity e region t ix st)))"
    unfolding evs(1) using run_ok_events [OF ok assms] run_ok_prefix by blast
qed

lemma keeps_indexes:
  assumes "\<And>ix. keeps I (determineUnusedDDBCapacity e region t ix)"
  shows "keeps I (identifyUnusedDDBCapacity_indexes e region t tis)"
proof (induction tis)
  case Nil
  show ?case by (simp add: keeps_return)
next
  case (Cons ti tis)
  show ?case by (simp add: keeps_bind assms Cons.IH)
qed

lemma keeps_tables:
  assumes "\<And>t ix. t \<in> processed ttc tns \<Longrightarrow> keeps I (determineUnusedDDBCapacity e region t ix)"
    and "\<And>t. t \<in> processed ttc tns \<Longrightarrow> keeps I (getDDBTableGlobalSecondaryIndexNames e t region)"
  shows "keeps I (identifyUnusedDDBCapacity_tables e region ttc tns)"
  using assms
proof (induction tns)
  case Nil
  show ?case by (simp add: keeps_return)
next
  case (Cons tn tns)
  have sub: "processed ttc tns \<subseteq> processed ttc (tn # tns)" by (auto simp: processed_def)
  have IH: "keeps I (identifyUnusedDDBCapacity_tables e region ttc tns)"
    using Cons.prems sub by (intro Cons.IH) blast+
  show ?case
  proof (cases "truthy ttc \<and> ttc \<noteq> Some tn")
    case True
    then show ?thesis using IH by simp
  next
    case False
    then have tn: "tn \<in> processed ttc (tn # tns)" by (auto simp: processed_def)
    show ?thesis
      using False
      by (simp add: keeps_bind Cons.prems(1) [OF tn] Cons.prems(2) [OF tn] keeps_print
          keeps_return keeps_indexes IH)
  qed
qed

lemma keeps_prefix_determineUnusedDDBCapacity:
  "keeps (prefix p) (determineUnusedDDBCapacity e region t ix)"
  unfolding keeps_def
proof (intro allI impI)
  fix st :: state
  assume "prefix p (trace st)"
  then show "prefix p (trace (snd (determineUnusedDDBCapacity e region t ix st)))"
    using determineUnusedDDBCapacity_trace [of e region t ix st] by (auto simp: prefix_def)
qed

lemma getDDBTableGlobalSecondaryIndexNames_trace:
  "trace (snd (getDDBTableGlobalSecondaryIndexNames e t region st)) =
     trace st @ [DescribeTableCall region t]"
  by (simp add: getDDBTableGlobalSecondaryIndexNames_def io_bind_def call_describe_table_def
      io_lift_def split: sum.splits)

lemma keeps_prefix_getDDBTableGlobalSecondaryIndexNames:
  "keeps (prefix p) (getDDBTableGlobalSecondaryIndexNames e t region)"
  by (auto simp: keeps_def getDDBTableGlobalSecondaryIndexNames_trace prefix_def)

lemma keeps_run_ok_getDDBTableGlobalSecondaryIndexNames:
  "t \<in> T \<Longrightarrow> keeps (run_ok e T) (getDDBTableGlobalSecondaryIndexNames e t region)"
  by (simp add: keeps_def getDDBTableGlobalSecondaryIndexNames_trace run_ok_snoc event_ok_def)

lemma identifyUnusedDDBCapacity_cases:
  "identifyUnusedDDBCapacity e region ttc initial_state =
     (case list_tables e 0 region of
        Inl err \<Rightarrow> (Inl err, \<lparr>trace = [ListTablesCall region], out = []\<rparr>)
      | Inr resp \<Rightarrow>
          (case parseDDBTableList resp of
             Inl err \<Rightarrow> (Inl err, \<lparr>trace = [ListTablesCall region], out = []\<rparr>)
           | Inr tableNames \<Rightarrow>
               identifyUnusedDDBCapacity_tables e region ttc tableNames
                 \<lparr>trace = [ListTablesCall region],
                  out = [Format ''Table Names for Region {0} are {1}''
                           [PyStr region, PySet tableNames]]\<rparr>))"
  by (simp add: identifyUnusedDDBCapacity_def io_bind_def call_list_tables_def initial_state_def
      io_lift_def print_line_def split: sum.splits)

lemma identifyUnusedDDBCapacity_keeps:
  assumes "I [ListTablesCall region]"
    and "keeps I (identifyUnusedDDBCapacity_tables e region ttc
           (identifyUnusedDDBCapacity_tableNames e region))"
  shows "I (trace (snd (identifyUnusedDDBCapacity e region ttc initial_state)))"
proof (cases "list_tables e 0 region")
  case (Inl err)
  then show ?thesis using assms(1) by (simp add: identifyUnusedDDBCapacity_cases)
next
  case (Inr resp)
  show ?thesis
  proof (cases "parseDDBTableList resp")
    case (Inl err)
    then show ?thesis using Inr assms(1) by (simp add: identifyUnusedDDBCapacity_cases)
  next
    case names: (Inr tableNames)
    have "identifyUnusedDDBCapacity_tableNames e region = tableNames"
      by (simp add: identifyUnusedDDBCapacity_tableNames_def Inr names)
    then show ?thesis
      using assms Inr names
      by (simp add: identifyUnusedDDBCapacity_cases keeps_def)
  qed
qed

lemma identifyUnusedDDBCapacity_run_ok:
  "run_ok e (processed ttc (identifyUnusedDDBCapacity_tableNames e region))
     (trace (snd (identifyUnusedDDBCapacity e region ttc initial_state)))"
proof (rule identifyUnusedDDBCapacity_keeps)
  show "run_ok e (processed ttc (identifyUnusedDDBCapacity_tableNames e region))
          [ListTablesCall region]"
    by (simp add: run_ok_def event_ok_def)
  show "keeps (run_ok e (processed ttc (identifyUnusedDDBCapacity_tableNames e region)))
          (identifyUnusedDDBCapacity_tables e region ttc
             (identifyUnusedDDBCapacity_tableNames e region))"
    by (rule keeps_tables)
      (simp_all add: keeps_determineUnusedDDBCapacity
         keeps_run_ok_getDDBTableGlobalSecondaryIndexNames)
qed

lemma identifyUnusedDDBCapacity_first_event:
  "prefix [ListTablesCall region] (trace (snd (identifyUnusedDDBCapacity e region ttc initial_state)))"
proof (rule identifyUnusedDDBCapacity_keeps)
  show "prefix [ListTablesCall region] [ListTablesCall region]" by simp
  show "keeps (prefix [ListTablesCall region])
          (identifyUnusedDDBCapacity_tables e region ttc
             (identifyUnusedDDBCapacity_tableNames e region))"
    by (rule keeps_tables)
      (simp_all add: keeps_prefix_determineUnusedDDBCapacity
         keeps_prefix_getDDBTableGlobalSecondaryIndexNames)
qed

lemma parseDDBTableList_set:
  "set (foldl (\<lambda>tableNames tn. List.insert tn tableNames) acc xs) = set acc \<union> set xs"
  by (induction xs arbitrary: acc) auto

lemma parseDDBTableList_distinct:
  "distinct acc \<Longrightarrow> distinct (foldl (\<lambda>tableNames tn. List.insert tn tableNames) acc xs)"
  by (induction xs arbitrary: acc) auto

lemma identifyUnusedDDBCapacity_tableNames_set:
  "list_tables e 0 region = Inr (Some r) \<Longrightarrow>
   set (identifyUnusedDDBCapacity_tableNames e region) \<subseteq> set (TableNames r)"
  by (simp add: identifyUnusedDDBCapacity_tableNames_def parseDDBTableList_def
      parseDDBTableList_set)

lemma run_ok_event_table:
  assumes "run_ok e T tr" and "ev \<in> set tr" and "event_table ev = Some tn"
  shows "tn \<in> T"
proof -
  obtain k where k: "k < length tr" "tr ! k = ev"
    using assms(2) by (auto simp: in_set_conv_nth)
  then have "event_ok e T tr k ev" using assms(1) by (auto simp: run_ok_def)
  then show ?thesis
    using assms(3)
    by (cases ev) (auto simp: event_ok_def consumed_read_request_def)
qed

lemma change_write_throughput_simps [simp]:
  "ReadCapacityUnits (change_write_throughput f pt) = ReadCapacityUnits pt"
  "WriteCapacityUnits (change_write_throughput f pt) = f (WriteCapacityUnits pt)"
  by (simp_all add: change_write_throughput_def)

lemma loop_change_read:
  "getDDBTableProvisionedCapacity_loop ''read'' ix
     (map (\<lambda>ind. \<lparr>IndexName = IndexName ind,
                   IndexProvisionedThroughput =
                     change_write_throughput f (IndexProvisionedThroughput ind)\<rparr>) inds) =
   getDDBTableProvisionedCapacity_loop ''read'' ix inds"
  by (induction inds) simp_all

lemma loop_change_write:
  "getDDBTableProvisionedCapacity_loop ''write'' ix
     (map (\<lambda>ind. \<lparr>IndexName = IndexName ind,
                   IndexProvisionedThroughput =
                     change_write_throughput f (IndexProvisionedThroughput ind)\<rparr>) inds) =
   map_sum id (map_option f) (getDDBTableProvisionedCapacity_loop ''write'' ix inds)"
  by (induction inds) simp_all

lemma resp_change_read:
  "getDDBTableProvisionedCapacity_resp (change_write_response f resp) tn region ''read'' ix =
   getDDBTableProvisionedCapacity_resp resp tn region ''read'' ix"
  by (simp add: getDDBTableProvisionedCapacity_resp_def change_write_response_def
      change_write_table_def loop_change_read split: option.splits)

lemma resp_change_write:
  "getDDBTableProvisionedCapacity_resp (change_write_response f resp) tn region ''write'' ix =
   map_sum id (map_option f) (getDDBTableProvisionedCapacity_resp resp tn region ''write'' ix)"
  by (simp add: getDDBTableProvisionedCapacity_resp_def change_write_response_def
      change_write_table_def loop_change_write split: option.splits)

lemma capacity_read:
  "getDDBTableProvisionedCapacity (change_write_capacity f e) tn region ''read'' ix st =
   getDDBTableProvisionedCapacity e tn region ''read'' ix st"
  by (cases "describe_table e (length (trace st)) region tn")
    (simp_all add: getDDBTableProvisionedCapacity_def io_bind_def call_describe_table_def
      io_lift_def change_write_capacity_def resp_change_read)

lemma capacity_write:
  "getDDBTableProvisionedCapacity (change_write_capacity f e) tn region ''write'' ix st =
   (map_sum id (map_option f) (fst (getDDBTableProvisionedCapacity e tn region ''write'' ix st)),
    snd (getDDBTableProvisionedCapacity e tn region ''write'' ix st))"
  by (cases "describe_table e (length (trace st)) region tn")
    (simp_all add: getDDBTableProvisionedCapacity_def io_bind_def call_describe_table_def
      io_lift_def change_write_capacity_def resp_change_write)

lemma capacity_lines_change:
  fixes Lr Lw :: "int option \<Rightarrow> line" and tn region :: string and ix :: "string option"
  assumes w: "\<And>w. is_write_capacity_line (Lw w)" and r: "\<And>r. \<not> is_write_capacity_line (Lr r)"
  defines "m \<equiv> (\<lambda>e. io_bind (getDDBTableProvisionedCapacity e tn region ''read'' ix)
      (\<lambda>readCapacityUnits.
        io_bind (getDDBTableProvisionedCapacity e tn region ''write'' ix)
          (\<lambda>writeCapacityUnits.
            io_bind (print_line (Lr readCapacityUnits))
              (\<lambda>_. io_bind (print_line (Lw writeCapacityUnits))
                (\<lambda>_. io_return (readCapacityUnits, writeCapacityUnits))))))"
  shows "(case fst (m e st) of
      Inl err \<Rightarrow> fst (m (change_write_capacity f e) st) = Inl err
    | Inr (r, w) \<Rightarrow> fst (m (change_write_capacity f e) st) = Inr (r, map_option f w))
   \<and> trace (snd (m (change_write_capacity f e) st)) = trace (snd (m e st))
   \<and> filter (\<lambda>l. \<not> is_write_capacity_line l) (out (snd (m (change_write_capacity f e) st)))
     = filter (\<lambda>l. \<not> is_write_capacity_line l) (out (snd (m e st)))"
proof -
  let ?r = "getDDBTableProvisionedCapacity e tn region ''read'' ix st"
  show ?thesis
  proof (cases "fst ?r")
    case (Inl err)
    then show ?thesis
      by (simp add: m_def io_bind_Inl capacity_read)
  next
    case (Inr rv)
    let ?w = "getDDBTableProvisionedCapacity e tn region ''write'' ix (snd ?r)"
    show ?thesis
    proof (cases "fst ?w")
      case (Inl err)
      then show ?thesis
        using Inr
        by (simp add: m_def io_bind_Inr io_bind_Inl capacity_read capacity_write)
    next
      case wv: (Inr wv)
      have p: "io_bind (print_line l) g s = g () (s\<lparr>out := out s @ [l]\<rparr>)" for l g s
        by (simp add: io_bind_def print_line_def)
      show ?thesis
        using Inr wv
        by (simp add: m_def io_bind_Inr capacity_read capacity_write p io_return_def w r)
    qed
  qed
qed

lemma capacity_phase_change:
  "(case fst (determineUnusedDDBCapacity_capacity e region tn ix st) of
      Inl err \<Rightarrow> fst (determineUnusedDDBCapacity_capacity (change_write_capacity f e) region tn ix st)
                  = Inl err
    | Inr (r, w) \<Rightarrow> fst (determineUnusedDDBCapacity_capacity (change_write_capacity f e) region tn ix st)
                  = Inr (r, map_option f w))
   \<and> trace (snd (determineUnusedDDBCapacity_capacity (change_write_capacity f e) region tn ix st))
     = trace (snd (determineUnusedDDBCapacity_capacity e region tn ix st))
   \<and> filter (\<lambda>l. \<not> is_write_capacity_line l)
       (out (snd (determineUnusedDDBCapacity_capacity (change_write_capacity f e) region tn ix st)))
     = filter (\<lambda>l. \<not> is_write_capacity_line l)
       (out (snd (determineUnusedDDBCapacity_capacity e region tn ix st)))"
proof (cases "truthy ix")
  case False
  show ?thesis
    unfolding determineUnusedDDBCapacity_capacity_def if_P [OF False]
    by (rule capacity_lines_change) simp_all
next
  case True
  then have "\<not> \<not> truthy ix" by simp
  show ?thesis
    unfolding determineUnusedDDBCapacity_capacity_def if_not_P [OF \<open>\<not> \<not> truthy ix\<close>]
    by (rule capacity_lines_change) simp_all
qed

lemma change_write_capacity_simps [simp]:
  "consumed_read_request (change_write_capacity f e) = consumed_read_request e"
  "call_get_metric_statistics (change_write_capacity f e) = call_get_metric_statistics e"
  by (auto simp: consumed_read_request_def change_write_capacity_def
      call_get_metric_statistics_def fun_eq_iff)

lemma metrics_report_view:
  assumes "trace s = trace s'"
    and "filter (\<lambda>l. \<not> is_write_capacity_line l) (out s) =
         filter (\<lambda>l. \<not> is_write_capacity_line l) (out s')"
  shows "read_view (io_bind (call_get_metric_statistics e rq)
            (\<lambda>d. io_bind (io_lift (g d)) print_line) s) =
         read_view (io_bind (call_get_metric_statistics e rq)
            (\<lambda>d. io_bind (io_lift (g d)) print_line) s')"
proof (cases "get_metric_statistics e (length (trace s)) rq")
  case (Inl err)
  then show ?thesis
    using assms by (simp add: read_view_def io_bind_def call_get_metric_statistics_def)
next
  case (Inr d)
  then show ?thesis
    using assms
    by (cases "g d")
      (simp_all add: read_view_def io_bind_def call_get_metric_statistics_def io_lift_def
        print_line_def)
qed

lemma example_result:
  "identifyUnusedDDBCapacity example_env ''us-east-1'' (Some ''Orders'') initial_state =
   (Inr (),
    \<lparr>trace =
       [ListTablesCall ''us-east-1'', DatetimeNow, DatetimeNow,
        DescribeTableCall ''us-east-1'' ''Orders'', DescribeTableCall ''us-east-1'' ''Orders'',
        GetMetricStatisticsCall
          \<lparr>Namespace = ''AWS/DynamoDB'', MetricName = ''ConsumedReadCapacityUnits'',
           StartTime = 1509568000000002, EndTime = 1510000000000001, Period = 300,
           Statistics = [''Sum''], Dimensions = [(''TableName'', ''Orders'')],
           Unit = ''Count''\<rparr>,
        DescribeTableCall ''us-east-1'' ''Orders'', DatetimeNow, DatetimeNow,
        DescribeTableCall ''us-east-1'' ''Orders'', DescribeTableCall ''us-east-1'' ''Orders'',
        GetMetricStatisticsCall
          \<lparr>Namespace = ''AWS/DynamoDB'', MetricName = ''ConsumedReadCapacityUnits'',
           StartTime = 1509568000000008, EndTime = 1510000000000007, Period = 300,
           Statistics = [''Sum''], Dimensions = [(''TableName'', ''Orders'')],
           Unit = ''Count''\<rparr>],
     out =
       [Format ''Table Names for Region {0} are {1}''
          [PyStr ''us-east-1'', PySet [''Empty'', ''Orders'']],
        Format ''Provisioned Read Capacity Unit for table {0} is {1}''
          [PyStr ''Orders'', PyInt 100],
        Format ''Provisioned Write Capacity Unit for table {0} is {1}''
          [PyStr ''Orders'', PyInt 40],
        Format ''Table {0} has max consumed capacity of {1}% '' [PyStr ''Orders'', PyFloat 90],
        Format ''Provisioned Read Capacity Unit for table {0} and index {1} is {2}''
          [PyStr ''Orders'', PyStr ''byCustomer'', PyInt 20],
        Format ''Provisioned Write Capacity Unit for table {0} and index {1} is {2}''
          [PyStr ''Orders'', PyStr ''byCustomer'', PyInt 10],
        Format ''Table {0} has max consumed capacity of {1}% ''
          [PyStr ''Orders'', PyFloat 450]]\<rparr>)"
  by (simp add: identifyUnusedDDBCapacity_cases example_env_def parseDDBTableList_def truthy_def
      io_bind_def determineUnusedDDBCapacity_def call_datetime_now_def
      determineUnusedDDBCapacity_capacity_def getDDBTableProvisionedCapacity_def
      getDDBTableProvisionedCapacity_resp_def call_describe_table_def io_lift_def print_line_def
      io_return_def getDDBMetricsStatistics_def call_get_metric_statistics_def
      determineUnusedDDBCapacity_report_def getMetricsDataPoints_def
      getDDBTableGlobalSecondaryIndexNames_def getDDBTableGlobalSecondaryIndexNames_resp_def
      CONSUMED_READ_CAPACITY_UNITS_def List.insert_def timedelta_days_def py_int_def)

lemma getDDBTableProvisionedCapacity_loop_unsupported:
  assumes "capacityType \<noteq> ''read''" and "capacityType \<noteq> ''write''"
    and "indexName \<in> IndexName ` set inds"
  shows "getDDBTableProvisionedCapacity_loop capacityType indexName inds =
           Inl UnsupportedCapacityType"
  using assms by (induction inds) auto

text \<open>
  What \<open>determineUnusedDDBCapacity\<close> prints last is the line of lines 130-141 for the
  read capacity and the datapoints it was given.
\<close>

lemma determineUnusedDDBCapacity_prints_report:
  assumes c: "determineUnusedDDBCapacity_capacity e region tableName indexName
                (st\<lparr>trace := trace st @ [DatetimeNow, DatetimeNow]\<rparr>) = (Inr (r, w), st')"
    and m: "get_metric_statistics e (length (trace st'))
              (consumed_read_request e tableName (length (trace st))) = Inr d"
  shows "determineUnusedDDBCapacity e region tableName indexName st =
           (case determineUnusedDDBCapacity_report tableName r (Datapoints d) of
              Inl err \<Rightarrow>
                (Inl err,
                 st'\<lparr>trace := trace st' @ [GetMetricStatisticsCall
                    (consumed_read_request e tableName (length (trace st)))]\<rparr>)
            | Inr l \<Rightarrow>
                (Inr (),
                 st'\<lparr>trace := trace st' @ [GetMetricStatisticsCall
                    (consumed_read_request e tableName (length (trace st)))],
                    out := out st' @ [l]\<rparr>))"
  unfolding determineUnusedDDBCapacity_clock
  using c m
  by (simp add: io_bind_def call_get_metric_statistics_def io_lift_def print_line_def
      split: sum.splits)

lemma getDDBTableProvisionedCapacity_loop_no_match:
  "indexName \<notin> IndexName ` set inds \<Longrightarrow>
   getDDBTableProvisionedCapacity_loop capacityType indexName inds = Inr None"
  by (induction inds) auto

section \<open>The claims on the utilization computation\<close>

text \<open>
  C1 (amended). For every non-empty series whose datapoints have pairwise different
  timestamps and non-negative sums, and every provisioned read capacity \<open>p > 0\<close>,
  lines 130-141 report the peak \<open>max of the sums / p * 100\<close>. Floats are reals here.
\<close>

theorem determineUnusedDDBCapacity_report_peak:
  assumes "S \<noteq> []" and "distinct (map dp_Timestamp S)"
    and "\<forall>dp\<in>set S. 0 \<le> dp_Sum dp" and "0 < p"
  shows "determineUnusedDDBCapacity_report tableName (Some p) S =
           Inr (Format ''Table {0} has max consumed capacity of {1}% ''
                  [PyStr tableName, PyFloat (Max (dp_Sum ` set S) / real_of_int p * 100)])"
proof -
  have items: "getMetricsDataPoints S = map (\<lambda>dp. (dp_Timestamp dp, dp_Sum dp)) S"
    using assms(2) by (rule getMetricsDataPoints_distinct)
  have img: "(\<lambda>(ts, uc). uc / real_of_int p * 100) ` set (getMetricsDataPoints S) =
             (\<lambda>u. u / real_of_int p * 100) ` (dp_Sum ` set S)"
    unfolding items by (auto simp: image_iff)
  have mx: "Max (insert 0 ((\<lambda>u. u / real_of_int p * 100) ` (dp_Sum ` set S))) =
        Max (dp_Sum ` set S) / real_of_int p * 100"
    using assms(1,3,4) by (intro Max_scale) auto
  have p: "p \<noteq> 0" using assms(4) by simp
  have "determineUnusedDDBCapacity_loop (Some p) (getMetricsDataPoints S) 0 =
        Inr (Max (dp_Sum ` set S) / real_of_int p * 100)"
    unfolding loop_nonzero [OF p] img mx ..
  then show ?thesis
    using assms(1) unfolding determineUnusedDDBCapacity_report_def by simp
qed

text \<open>
  The table "Orders" of the specification: read capacity 100 and the samples
  20, 55, 90, 10 give a peak of 90.
\<close>

theorem determineUnusedDDBCapacity_report_peak_witness:
  "determineUnusedDDBCapacity_report ''Orders'' (Some 100)
     [\<lparr>dp_Timestamp = ''2017-11-10 12:00:00'', dp_Sum = 20\<rparr>,
      \<lparr>dp_Timestamp = ''2017-11-10 12:05:00'', dp_Sum = 55\<rparr>,
      \<lparr>dp_Timestamp = ''2017-11-10 12:10:00'', dp_Sum = 90\<rparr>,
      \<lparr>dp_Timestamp = ''2017-11-10 12:15:00'', dp_Sum = 10\<rparr>] =
   Inr (Format ''Table {0} has max consumed capacity of {1}% '' [PyStr ''Orders'', PyFloat 90])"
  using determineUnusedDDBCapacity_report_peak
    [of "[\<lparr>dp_Timestamp = ''2017-11-10 12:00:00'', dp_Sum = 20\<rparr>,
          \<lparr>dp_Timestamp = ''2017-11-10 12:05:00'', dp_Sum = 55\<rparr>,
          \<lparr>dp_Timestamp = ''2017-11-10 12:10:00'', dp_Sum = 90\<rparr>,
          \<lparr>dp_Timestamp = ''2017-11-10 12:15:00'', dp_Sum = 10\<rparr>]" 100 "''Orders''"]
  by simp

text \<open>
  C1 as stated fails: two datapoints with one timestamp are one entry of the
  dictionary of line 108, and the later sum replaces the earlier one. The sums 90 and
  10 under one timestamp, with read capacity 100, are reported as a peak of 10, and the
  greatest sum over the capacity is 90.
\<close>

theorem determineUnusedDDBCapacity_report_repeated_timestamp:
  "determineUnusedDDBCapacity_report ''Orders'' (Some 100)
     [\<lparr>dp_Timestamp = ''2017-11-10 12:00:00'', dp_Sum = 90\<rparr>,
      \<lparr>dp_Timestamp = ''2017-11-10 12:00:00'', dp_Sum = 10\<rparr>] =
   Inr (Format ''Table {0} has max consumed capacity of {1}% '' [PyStr ''Orders'', PyFloat 10])
   \<and> Max (dp_Sum ` set [\<lparr>dp_Timestamp = ''2017-11-10 12:00:00'', dp_Sum = 90\<rparr>,
                       \<lparr>dp_Timestamp = ''2017-11-10 12:00:00'', dp_Sum = 10\<rparr>])
       / real_of_int 100 * 100 = 90"
  by (simp add: determineUnusedDDBCapacity_report_def getMetricsDataPoints_def)

text \<open>
  C2 (amended). On a non-empty series, a provisioned read capacity of zero ends the
  computation with \<open>ZeroDivisionError\<close> and an absent one with \<open>TypeError\<close>.
\<close>

theorem determineUnusedDDBCapacity_report_invalid_capacity:
  assumes "S \<noteq> []"
  shows "determineUnusedDDBCapacity_report tableName (Some 0) S = Inl ZeroDivisionError
       \<and> determineUnusedDDBCapacity_report tableName None S = Inl TypeError"
  using assms
  by (simp add: determineUnusedDDBCapacity_report_def loop_zero loop_None
        getMetricsDataPoints_empty)

theorem determineUnusedDDBCapacity_report_invalid_capacity_witness:
  "determineUnusedDDBCapacity_report ''Orders'' (Some 0)
     [\<lparr>dp_Timestamp = ''2017-11-10 12:00:00'', dp_Sum = 10\<rparr>] = Inl ZeroDivisionError
   \<and> determineUnusedDDBCapacity_report ''Orders'' None
     [\<lparr>dp_Timestamp = ''2017-11-10 12:00:00'', dp_Sum = 10\<rparr>] = Inl TypeError"
  using determineUnusedDDBCapacity_report_invalid_capacity
    [of "[\<lparr>dp_Timestamp = ''2017-11-10 12:00:00'', dp_Sum = 10\<rparr>]" "''Orders''"]
  by simp

text \<open>
  C2 as stated fails: nothing checks the capacity. With a read capacity of -5 and one
  sample of 10 the computation ends without an error and reports a peak of 0.
\<close>

theorem determineUnusedDDBCapacity_report_negative_capacity:
  "determineUnusedDDBCapacity_report ''Orders'' (Some (- 5))
     [\<lparr>dp_Timestamp = ''2017-11-10 12:00:00'', dp_Sum = 10\<rparr>] =
   Inr (Format ''Table {0} has max consumed capacity of {1}% '' [PyStr ''Orders'', PyFloat 0])"
  by (simp add: determineUnusedDDBCapacity_report_def getMetricsDataPoints_def)

text \<open>
  C5. For every provisioned read capacity, and so for every \<open>p > 0\<close>, an empty series
  gives the line that reports 0%, and no error.
\<close>

theorem determineUnusedDDBCapacity_report_empty:
  "determineUnusedDDBCapacity_report tableName (Some p) [] =
     Inr (Format ''Table {0} has max consumed capacity of 0% '' [PyStr tableName])"
  by (simp add: determineUnusedDDBCapacity_report_def)

text \<open>
  C6 (amended). The line printed for a series without datapoints is the text of the
  numeric report with the number 0, whatever the capacity. The line printed for real
  samples whose peak is zero is the numeric report with the text of the float 0. The
  two lines are the same text exactly when Python writes that float as "0".
\<close>

theorem determineUnusedDDBCapacity_report_empty_text:
  assumes "S \<noteq> []" and "\<forall>dp\<in>set S. dp_Sum dp = 0" and "0 < p"
  shows "map_sum id (render str) (determineUnusedDDBCapacity_report tableName rcu []) =
           Inr (numeric_report tableName ''0'')
       \<and> map_sum id (render str) (determineUnusedDDBCapacity_report tableName (Some p) S) =
           Inr (numeric_report tableName (str (PyFloat 0)))
       \<and> ((map_sum id (render str) (determineUnusedDDBCapacity_report tableName rcu []) =
            map_sum id (render str) (determineUnusedDDBCapacity_report tableName (Some p) S))
           = (str (PyFloat 0) = ''0''))"
proof -
  have a: "map_sum id (render str) (determineUnusedDDBCapacity_report tableName rcu []) =
           Inr (numeric_report tableName ''0'')"
    by (simp add: determineUnusedDDBCapacity_report_def str_format_zero str_arg_def)
  have b: "map_sum id (render str) (determineUnusedDDBCapacity_report tableName (Some p) S) =
           Inr (numeric_report tableName (str (PyFloat 0)))"
    using report_zero_peak [OF assms]
    by (simp add: str_format_peak str_arg_def)
  show ?thesis
    unfolding a b by (auto simp: numeric_report_inj)
qed

theorem determineUnusedDDBCapacity_report_empty_text_witness:
  "map_sum id (render (\<lambda>v. ''0.0'')) (determineUnusedDDBCapacity_report ''Empty'' (Some 50) []) =
     Inr (numeric_report ''Empty'' ''0'')
   \<and> map_sum id (render (\<lambda>v. ''0.0''))
       (determineUnusedDDBCapacity_report ''Empty'' (Some 50)
          [\<lparr>dp_Timestamp = ''2017-11-10 12:00:00'', dp_Sum = 0\<rparr>]) =
     Inr (numeric_report ''Empty'' ''0.0'')
   \<and> map_sum id (render (\<lambda>v. ''0.0'')) (determineUnusedDDBCapacity_report ''Empty'' (Some 50) []) \<noteq>
     map_sum id (render (\<lambda>v. ''0.0''))
       (determineUnusedDDBCapacity_report ''Empty'' (Some 50)
          [\<lparr>dp_Timestamp = ''2017-11-10 12:00:00'', dp_Sum = 0\<rparr>])"
  using determineUnusedDDBCapacity_report_empty_text
    [of "[\<lparr>dp_Timestamp = ''2017-11-10 12:00:00'', dp_Sum = 0\<rparr>]" 50 "\<lambda>v. ''0.0''"
        "''Empty''" "Some 50"]
  by (simp add: numeric_report_inj)

text \<open>
  C6 as stated fails: the table "Empty" with read capacity 50 and no datapoints gets the
  line "Table Empty has max consumed capacity of 0% ", which is the numeric report of
  the number 0 and says nothing else.
\<close>

theorem determineUnusedDDBCapacity_report_empty_is_numeric:
  "map_sum id plain_text (determineUnusedDDBCapacity_report ''Empty'' (Some 50) []) =
     Inr (Some ''Table Empty has max consumed capacity of 0% '')
   \<and> numeric_report ''Empty'' ''0'' = ''Table Empty has max consumed capacity of 0% ''"
  by (simp add: determineUnusedDDBCapacity_report_def numeric_report_def field_index_def
        str_format.simps)

section \<open>The claims on the capacity reader\<close>

text \<open>
  C3, on an input where the code does not do what the claim says. The table "Orders"
  has the index "byCustomer" only. Asked for the read capacity of the index "byDate",
  the function returns \<open>None\<close> and raises nothing: the loop of lines 95-102 ends
  without a match and nothing follows it. For the table "Empty", which has no list of
  indexes, line 93 raises.
\<close>

theorem getDDBTableProvisionedCapacity_missing_index:
  "getDDBTableProvisionedCapacity example_env ''Orders'' ''us-east-1'' ''read'' (Some ''byDate'')
     initial_state =
   (Inr None, \<lparr>trace = [DescribeTableCall ''us-east-1'' ''Orders''], out = []\<rparr>)
   \<and> getDDBTableProvisionedCapacity example_env ''Empty'' ''us-east-1'' ''read'' (Some ''byDate'')
     initial_state =
   (Inl (CannotFindCapacity ''Empty'' ''byDate'' ''us-east-1''),
    \<lparr>trace = [DescribeTableCall ''us-east-1'' ''Empty''], out = []\<rparr>)"
  by (simp add: getDDBTableProvisionedCapacity_def io_bind_def call_describe_table_def
      io_lift_def example_env_def initial_state_def getDDBTableProvisionedCapacity_resp_def
      truthy_def)

text \<open>
  C4 (amended). For a capacity type other than "read" and "write", the function raises
  "Unsupported capacityType" when the description of the table is retrieved with its
  \<open>ProvisionedThroughput\<close> and either no index is named or the named index is one of
  the table.
\<close>

theorem getDDBTableProvisionedCapacity_unsupported:
  assumes "capacityType \<noteq> ''read''" and "capacityType \<noteq> ''write''"
    and "describe_table e (length (trace st)) region tableName = Inr (Some r)"
    and "Table r = Some t" and "ProvisionedThroughput t = Some pt"
    and "\<not> truthy indexName
         \<or> (\<exists>inds. GlobalSecondaryIndexes t = Some inds \<and> the indexName \<in> IndexName ` set inds)"
  shows "fst (getDDBTableProvisionedCapacity e tableName region capacityType indexName st) =
           Inl UnsupportedCapacityType"
  using assms
  by (auto simp: getDDBTableProvisionedCapacity_def io_bind_def call_describe_table_def
      io_lift_def getDDBTableProvisionedCapacity_resp_def
      getDDBTableProvisionedCapacity_loop_unsupported)

theorem getDDBTableProvisionedCapacity_unsupported_witness:
  "fst (getDDBTableProvisionedCapacity example_env ''Orders'' ''us-east-1'' ''delete''
          (Some ''byCustomer'') initial_state) = Inl UnsupportedCapacityType"
  using getDDBTableProvisionedCapacity_unsupported
    [of "''delete''" example_env initial_state "''us-east-1''" "''Orders''"
        "\<lparr>Table = Some
            \<lparr>ProvisionedThroughput = Some \<lparr>ReadCapacityUnits = 100, WriteCapacityUnits = 40\<rparr>,
             GlobalSecondaryIndexes = Some
               [\<lparr>IndexName = ''byCustomer'',
                 IndexProvisionedThroughput =
                   \<lparr>ReadCapacityUnits = 20, WriteCapacityUnits = 10\<rparr>\<rparr>]\<rparr>\<rparr>"
        "\<lparr>ProvisionedThroughput = Some \<lparr>ReadCapacityUnits = 100, WriteCapacityUnits = 40\<rparr>,
             GlobalSecondaryIndexes = Some
               [\<lparr>IndexName = ''byCustomer'',
                 IndexProvisionedThroughput =
                   \<lparr>ReadCapacityUnits = 20, WriteCapacityUnits = 10\<rparr>\<rparr>]\<rparr>"
        "\<lparr>ReadCapacityUnits = 100, WriteCapacityUnits = 40\<rparr>" "Some ''byCustomer''"]
  by (simp add: example_env_def initial_state_def truthy_def)

text \<open>
  C4 as stated fails: the capacity type is looked at after the description of the
  table. For a table without \<open>ProvisionedThroughput\<close>, the capacity type "delete"
  gives the exception of line 82, not "Unsupported capacityType".
\<close>

theorem getDDBTableProvisionedCapacity_unsupported_after_describe:
  "fst (getDDBTableProvisionedCapacity on_demand_env ''Orders'' ''us-east-1'' ''delete'' None
          initial_state) = Inl (CouldNotRetrieveDescribeTable ''Orders'' ''us-east-1'')
   \<and> fst (getDDBTableProvisionedCapacity on_demand_env ''Orders'' ''us-east-1'' ''delete'' None
          initial_state) \<noteq> Inl UnsupportedCapacityType"
  by (simp add: getDDBTableProvisionedCapacity_def io_bind_def call_describe_table_def
      io_lift_def on_demand_env_def initial_state_def getDDBTableProvisionedCapacity_resp_def)

section \<open>The claims on the driver\<close>

text \<open>
  C7. In the trace of a run of the driver, a call of \<open>get_metric_statistics\<close> at
  position \<open>k\<close> comes four events after the clock was read for \<open>endTime\<close> and three
  after it was read for \<open>startTime\<close>. It asks for the metric ConsumedReadCapacityUnits
  with period 300, statistic Sum and unit Count, from five days before the second
  reading to the first reading.
\<close>

theorem identifyUnusedDDBCapacity_metrics_request:
  assumes "k < length (trace (snd (identifyUnusedDDBCapacity e region tableToCheck initial_state)))"
    and "trace (snd (identifyUnusedDDBCapacity e region tableToCheck initial_state)) ! k =
           GetMetricStatisticsCall rq"
  shows "Namespace rq = ''AWS/DynamoDB'' \<and> MetricName rq = ''ConsumedReadCapacityUnits''
       \<and> Period rq = 300 \<and> Statistics rq = [''Sum''] \<and> Unit rq = ''Count''
       \<and> 4 \<le> k
       \<and> trace (snd (identifyUnusedDDBCapacity e region tableToCheck initial_state)) ! (k - 4)
           = DatetimeNow
       \<and> trace (snd (identifyUnusedDDBCapacity e region tableToCheck initial_state)) ! (k - 3)
           = DatetimeNow
       \<and> EndTime rq = datetime_now e (k - 4)
       \<and> StartTime rq = datetime_now e (k - 3) - timedelta_days 5"
proof -
  let ?tr = "trace (snd (identifyUnusedDDBCapacity e region tableToCheck initial_state))"
  have "event_ok e (processed tableToCheck (identifyUnusedDDBCapacity_tableNames e region))
          ?tr k (?tr ! k)"
    using identifyUnusedDDBCapacity_run_ok [of e tableToCheck region] assms(1)
    by (simp add: run_ok_def)
  then obtain t where "4 \<le> k" "?tr ! (k - 4) = DatetimeNow" "?tr ! (k - 3) = DatetimeNow"
      "rq = consumed_read_request e t (k - 4)"
    unfolding assms(2) by (auto simp: event_ok_def)
  moreover have "Suc (k - 4) = k - 3" using \<open>4 \<le> k\<close> by simp
  ultimately show ?thesis
    by (simp add: consumed_read_request_def)
qed

theorem identifyUnusedDDBCapacity_metrics_request_witness:
  "trace (snd (identifyUnusedDDBCapacity example_env ''us-east-1'' (Some ''Orders'')
      initial_state)) ! 5 =
     GetMetricStatisticsCall
       \<lparr>Namespace = ''AWS/DynamoDB'', MetricName = ''ConsumedReadCapacityUnits'',
        StartTime = 1509568000000002, EndTime = 1510000000000001, Period = 300,
        Statistics = [''Sum''], Dimensions = [(''TableName'', ''Orders'')],
        Unit = ''Count''\<rparr>
   \<and> trace (snd (identifyUnusedDDBCapacity example_env ''us-east-1'' (Some ''Orders'')
      initial_state)) ! 1 = DatetimeNow
   \<and> trace (snd (identifyUnusedDDBCapacity example_env ''us-east-1'' (Some ''Orders'')
      initial_state)) ! 2 = DatetimeNow
   \<and> (1510000000000001 :: int) = datetime_now example_env 1
   \<and> (1509568000000002 :: int) = datetime_now example_env 2 - timedelta_days 5"
  using identifyUnusedDDBCapacity_metrics_request
    [of 5 example_env "''us-east-1''" "Some ''Orders''"
       "\<lparr>Namespace = ''AWS/DynamoDB'', MetricName = ''ConsumedReadCapacityUnits'',
        StartTime = 1509568000000002, EndTime = 1510000000000001, Period = 300,
        Statistics = [''Sum''], Dimensions = [(''TableName'', ''Orders'')],
        Unit = ''Count''\<rparr>"]
  by (simp add: example_result)

text \<open>
  C8. With a table to check, the run starts with the call of \<open>list_tables\<close>, and every
  later call that names a table names the table to check.
\<close>

theorem identifyUnusedDDBCapacity_filter:
  assumes "tableToCheck \<noteq> []"
  shows "\<exists>evs. trace (snd (identifyUnusedDDBCapacity e region (Some tableToCheck) initial_state)) =
                 ListTablesCall region # evs
             \<and> (\<forall>ev\<in>set evs. \<forall>tableName. event_table ev = Some tableName
                   \<longrightarrow> tableName = tableToCheck)"
proof -
  let ?tr = "trace (snd (identifyUnusedDDBCapacity e region (Some tableToCheck) initial_state))"
  let ?T = "processed (Some tableToCheck) (identifyUnusedDDBCapacity_tableNames e region)"
  obtain evs where evs: "?tr = ListTablesCall region # evs"
    using identifyUnusedDDBCapacity_first_event [of region e "Some tableToCheck"]
    by (auto simp: prefix_def)
  have T: "?T \<subseteq> {tableToCheck}"
    using assms by (auto simp: processed_def truthy_def)
  have "tableName = tableToCheck" if "ev \<in> set evs" "event_table ev = Some tableName"
    for ev tableName
  proof -
    have "ev \<in> set ?tr" using that(1) by (simp add: evs)
    then have "tableName \<in> ?T"
      using run_ok_event_table [OF identifyUnusedDDBCapacity_run_ok _ that(2)] by blast
    then show ?thesis using T by blast
  qed
  then show ?thesis using evs by blast
qed

theorem identifyUnusedDDBCapacity_filter_witness:
  "\<exists>evs. trace (snd (identifyUnusedDDBCapacity example_env ''us-east-1'' (Some ''Orders'')
             initial_state)) = ListTablesCall ''us-east-1'' # evs
       \<and> (\<forall>ev\<in>set evs. \<forall>tableName. event_table ev = Some tableName
             \<longrightarrow> tableName = ''Orders'')"
  using identifyUnusedDDBCapacity_filter [of "''Orders''" example_env "''us-east-1''"]
  by simp

text \<open>
  C9. Parsing fails on an empty response and on a response without table names. When
  it succeeds, the response had table names and the result is the set of them. A run
  of the driver that ends without an error had such a response, and every call of it
  that names a table names one of the response.
\<close>

theorem parseDDBTableList_inventory:
  "parseDDBTableList None = Inl CannotParseEmptyInput
   \<and> (TableNames r = [] \<longrightarrow> parseDDBTableList (Some r) = Inl MalformedInput)
   \<and> (parseDDBTableList inputJson = Inr tableNames \<longrightarrow>
        (\<exists>r'. inputJson = Some r' \<and> TableNames r' \<noteq> [] \<and> tableNames \<noteq> []
            \<and> set tableNames = set (TableNames r') \<and> distinct tableNames))
   \<and> (fst (identifyUnusedDDBCapacity e region tableToCheck initial_state) = Inr () \<longrightarrow>
        (\<exists>r'. list_tables e 0 region = Inr (Some r') \<and> TableNames r' \<noteq> []
            \<and> (\<forall>ev\<in>set (trace (snd (identifyUnusedDDBCapacity e region tableToCheck
                   initial_state))).
                 \<forall>tableName. event_table ev = Some tableName
                   \<longrightarrow> tableName \<in> set (TableNames r'))))"
proof (intro conjI impI)
  show "parseDDBTableList None = Inl CannotParseEmptyInput"
    by (simp add: parseDDBTableList_def)
  show "parseDDBTableList (Some r) = Inl MalformedInput" if "TableNames r = []"
    using that by (simp add: parseDDBTableList_def)
  show "\<exists>r'. inputJson = Some r' \<and> TableNames r' \<noteq> [] \<and> tableNames \<noteq> []
            \<and> set tableNames = set (TableNames r') \<and> distinct tableNames"
    if p: "parseDDBTableList inputJson = Inr tableNames"
  proof -
    obtain r' where r': "inputJson = Some r'" "TableNames r' \<noteq> []"
        "tableNames = foldl (\<lambda>tableNames tn. List.insert tn tableNames) [] (TableNames r')"
      using p by (auto simp: parseDDBTableList_def split: option.splits if_splits)
    have s: "set tableNames = set (TableNames r')"
      by (simp add: r'(3) parseDDBTableList_set)
    then have "tableNames \<noteq> []" using r'(2) by auto
    moreover have "distinct tableNames" by (simp add: r'(3) parseDDBTableList_distinct)
    ultimately show ?thesis using r' s by blast
  qed
  show "\<exists>r'. list_tables e 0 region = Inr (Some r') \<and> TableNames r' \<noteq> []
            \<and> (\<forall>ev\<in>set (trace (snd (identifyUnusedDDBCapacity e region tableToCheck
                   initial_state))).
                 \<forall>tableName. event_table ev = Some tableName
                   \<longrightarrow> tableName \<in> set (TableNames r'))"
    if ok: "fst (identifyUnusedDDBCapacity e region tableToCheck initial_state) = Inr ()"
  proof -
    obtain r' where r': "list_tables e 0 region = Inr (Some r')" "TableNames r' \<noteq> []"
      using ok
      by (auto simp: identifyUnusedDDBCapacity_cases parseDDBTableList_def
          split: sum.splits option.splits if_splits)
    have "tableName \<in> set (TableNames r')"
      if "ev \<in> set (trace (snd (identifyUnusedDDBCapacity e region tableToCheck initial_state)))"
        "event_table ev = Some tableName" for ev tableName
    proof -
      have "tableName \<in> processed tableToCheck (identifyUnusedDDBCapacity_tableNames e region)"
        using run_ok_event_table [OF identifyUnusedDDBCapacity_run_ok that] .
      then show ?thesis
        using identifyUnusedDDBCapacity_tableNames_set [OF r'(1)] by (auto simp: processed_def)
    qed
    then show ?thesis using r' by blast
  qed
qed

theorem parseDDBTableList_inventory_witness:
  "parseDDBTableList None = Inl CannotParseEmptyInput
   \<and> parseDDBTableList (Some \<lparr>TableNames = []\<rparr>) = Inl MalformedInput
   \<and> (\<exists>r'. Some \<lparr>TableNames = [''Orders'', ''Empty'']\<rparr> = Some r' \<and> TableNames r' \<noteq> []
          \<and> [''Empty'', ''Orders''] \<noteq> []
          \<and> set [''Empty'', ''Orders''] = set (TableNames r')
          \<and> distinct [''Empty'', ''Orders''])
   \<and> (\<exists>r'. list_tables example_env 0 ''us-east-1'' = Inr (Some r') \<and> TableNames r' \<noteq> []
          \<and> (\<forall>ev\<in>set (trace (snd (identifyUnusedDDBCapacity example_env ''us-east-1''
                 (Some ''Orders'') initial_state))).
               \<forall>tableName. event_table ev = Some tableName
                 \<longrightarrow> tableName \<in> set (TableNames r')))"
proof -
  have p: "parseDDBTableList (Some \<lparr>TableNames = [''Orders'', ''Empty'']\<rparr>) =
           Inr [''Empty'', ''Orders'']"
    by (simp add: parseDDBTableList_def List.insert_def)
  have r: "fst (identifyUnusedDDBCapacity example_env ''us-east-1'' (Some ''Orders'')
             initial_state) = Inr ()"
    by (simp add: example_result)
  show ?thesis
    using parseDDBTableList_inventory
      [of "\<lparr>TableNames = []\<rparr>" "Some \<lparr>TableNames = [''Orders'', ''Empty'']\<rparr>"
          "[''Empty'', ''Orders'']" example_env "''us-east-1''" "Some ''Orders''"]
      p r
    by simp
qed

text \<open>
  C10. Two runs of \<open>determineUnusedDDBCapacity\<close> from one state, in worlds that differ
  only in the write capacities that \<open>describe_table\<close> returns, end alike, make the same
  calls and print the same lines, but for the line that prints the write capacity: the
  line with the peak is the same.
\<close>

theorem determineUnusedDDBCapacity_write_capacity:
  "read_view (determineUnusedDDBCapacity (change_write_capacity f e) region tableName indexName st) =
   read_view (determineUnusedDDBCapacity e region tableName indexName st)"
proof -
  let ?st2 = "st\<lparr>trace := trace st @ [DatetimeNow, DatetimeNow]\<rparr>"
  let ?c = "determineUnusedDDBCapacity_capacity e region tableName indexName ?st2"
  let ?c' = "determineUnusedDDBCapacity_capacity (change_write_capacity f e) region tableName
               indexName ?st2"
  define rest where "rest = (\<lambda>r.
    io_bind (call_get_metric_statistics e (consumed_read_request e tableName (length (trace st))))
      (\<lambda>d. io_bind (io_lift (determineUnusedDDBCapacity_report tableName r (Datapoints d)))
         print_line))"
  have run: "determineUnusedDDBCapacity e region tableName indexName st =
      io_bind (determineUnusedDDBCapacity_capacity e region tableName indexName)
        (\<lambda>(r, w). rest r) ?st2"
    unfolding determineUnusedDDBCapacity_clock rest_def ..
  have run': "determineUnusedDDBCapacity (change_write_capacity f e) region tableName indexName st =
      io_bind (determineUnusedDDBCapacity_capacity (change_write_capacity f e) region tableName
        indexName) (\<lambda>(r, w). rest r) ?st2"
    unfolding determineUnusedDDBCapacity_clock change_write_capacity_simps rest_def ..
  note ch = capacity_phase_change [where e = e and region = region and tn = tableName
      and ix = indexName and st = ?st2 and f = f]
  have tr: "trace (snd ?c') = trace (snd ?c)" using ch by blast
  have ou: "filter (\<lambda>l. \<not> is_write_capacity_line l) (out (snd ?c')) =
            filter (\<lambda>l. \<not> is_write_capacity_line l) (out (snd ?c))" using ch by blast
  show ?thesis
  proof (cases "fst ?c")
    case (Inl err)
    then have c': "fst ?c' = Inl err" using ch by simp
    have 1: "determineUnusedDDBCapacity e region tableName indexName st = (Inl err, snd ?c)"
      unfolding run
      using io_bind_Inl [of "determineUnusedDDBCapacity_capacity e region tableName indexName"
          ?st2 err "\<lambda>(r, w). rest r"] Inl by simp
    have 2: "determineUnusedDDBCapacity (change_write_capacity f e) region tableName indexName st =
             (Inl err, snd ?c')"
      unfolding run'
      using io_bind_Inl [of "determineUnusedDDBCapacity_capacity (change_write_capacity f e)
          region tableName indexName" ?st2 err "\<lambda>(r, w). rest r"] c' by simp
    show ?thesis
      unfolding 1 2 by (simp add: read_view_def tr ou)
  next
    case (Inr rw)
    obtain r w where rw: "rw = (r, w)" by (cases rw)
    have c: "fst ?c = Inr (r, w)" using Inr rw by simp
    have c': "fst ?c' = Inr (r, map_option f w)" using ch c by simp
    have 1: "determineUnusedDDBCapacity e region tableName indexName st = rest r (snd ?c)"
      unfolding run
      using io_bind_Inr [of "determineUnusedDDBCapacity_capacity e region tableName indexName"
          ?st2 "(r, w)" "\<lambda>(r, w). rest r"] c by simp
    have 2: "determineUnusedDDBCapacity (change_write_capacity f e) region tableName indexName st =
             rest r (snd ?c')"
      unfolding run'
      using io_bind_Inr [of "determineUnusedDDBCapacity_capacity (change_write_capacity f e)
          region tableName indexName" ?st2 "(r, map_option f w)" "\<lambda>(r, w). rest r"] c' by simp
    show ?thesis
      unfolding 1 2 rest_def by (rule metrics_report_view [OF tr ou])
  qed
qed

theorem determineUnusedDDBCapacity_write_capacity_witness:
  "read_view (determineUnusedDDBCapacity (change_write_capacity (\<lambda>w. w + 1000) example_env)
      ''us-east-1'' ''Orders'' None initial_state) =
   (Inr (),
    [DatetimeNow, DatetimeNow,
     DescribeTableCall ''us-east-1'' ''Orders'', DescribeTableCall ''us-east-1'' ''Orders'',
     GetMetricStatisticsCall
       \<lparr>Namespace = ''AWS/DynamoDB'', MetricName = ''ConsumedReadCapacityUnits'',
        StartTime = 1509568000000001, EndTime = 1510000000000000, Period = 300,
        Statistics = [''Sum''], Dimensions = [(''TableName'', ''Orders'')],
        Unit = ''Count''\<rparr>],
    [Format ''Provisioned Read Capacity Unit for table {0} is {1}''
       [PyStr ''Orders'', PyInt 100],
     Format ''Table {0} has max consumed capacity of {1}% '' [PyStr ''Orders'', PyFloat 90]])"
  unfolding determineUnusedDDBCapacity_write_capacity
  by (simp add: read_view_def example_env_def initial_state_def truthy_def
      io_bind_def determineUnusedDDBCapacity_def call_datetime_now_def
      determineUnusedDDBCapacity_capacity_def getDDBTableProvisionedCapacity_def
      getDDBTableProvisionedCapacity_resp_def call_describe_table_def io_lift_def print_line_def
      io_return_def getDDBMetricsStatistics_def call_get_metric_statistics_def
      determineUnusedDDBCapacity_report_def getMetricsDataPoints_def
      CONSUMED_READ_CAPACITY_UNITS_def timedelta_days_def py_int_def)

end
